theory Spec2Isabelle
  imports Main "HOL-Library.Multiset" "HOL-Library.Log_Nat"
begin

section \<open>Text values\<close>

text \<open>
  A Python \<^verbatim>\<open>str\<close> is a sequence of Unicode code points; comparison, \<^verbatim>\<open>len\<close> and the
  \<^verbatim>\<open>VARCHAR(n)\<close> limit of the store all count code points. A text value is therefore a list
  of code points. ASCII literals are written through \<open>ascii\<close>, every other literal of
  \<^verbatim>\<open>main.py\<close> is spelled out code point by code point.
\<close>

type_synonym pystr = "nat list"

definition ascii :: "string \<Rightarrow> pystr" where
  "ascii s = map of_char s"

text \<open>The button text \<^verbatim>\<open>"<U+1F519> Glavnoe menyu"\<close> (back arrow, then the Russian for "Main menu").\<close>

definition main_menu_text :: pystr where
  "main_menu_text =
     [128281, 32, 1043, 1083, 1072, 1074, 1085, 1086, 1077, 32, 1084, 1077, 1085, 1102]"

text \<open>The category tags used by the quiz queries: colour, pronoun, number, and "difficult".\<close>

definition type_colour :: pystr where
  "type_colour = [1094, 1074, 1077, 1090]"

definition type_pronoun :: pystr where
  "type_pronoun = [1084, 1077, 1089, 1090, 1086, 1080, 1084, 1077, 1085, 1080, 1077]"

definition type_number :: pystr where
  "type_number = [1095, 1080, 1089, 1083, 1086]"

definition type_difficult :: pystr where
  "type_difficult = [1089, 1083, 1086, 1078, 1085, 1086, 1077]"

text \<open>
  \<^verbatim>\<open>str.isspace\<close>: the code points that \<^verbatim>\<open>str.strip()\<close> removes from both ends.
\<close>

definition py_isspace :: "nat \<Rightarrow> bool" where
  "py_isspace c \<longleftrightarrow>
     (9 \<le> c \<and> c \<le> 13) \<or> (28 \<le> c \<and> c \<le> 32) \<or> c = 133 \<or> c = 160 \<or> c = 5760 \<or>
     (8192 \<le> c \<and> c \<le> 8202) \<or> c = 8232 \<or> c = 8233 \<or> c = 8239 \<or> c = 8287 \<or> c = 12288"

definition py_strip :: "pystr \<Rightarrow> pystr" where
  "py_strip s = rev (dropWhile py_isspace (rev (dropWhile py_isspace s)))"

text \<open>
  \<^verbatim>\<open>str.lower()\<close> follows the Unicode case mapping of the Python runtime, which is not part
  of the source. For a text made only of the code points U+0000..U+00FF and U+0400..U+045F
  (Basic Latin, Latin-1, and the Cyrillic letters of Russian and its neighbours) the mapping
  works code point by code point and is the table \<open>lower_cp\<close>. For any other text it is left
  to the runtime (see \<open>py_lower\<close> below): there it may depend on the context and change the
  length.
\<close>

definition in_lower_table :: "nat \<Rightarrow> bool" where
  "in_lower_table c \<longleftrightarrow> c \<le> 255 \<or> (1024 \<le> c \<and> c \<le> 1119)"

definition lower_cp :: "nat \<Rightarrow> nat" where
  "lower_cp c =
     (if 65 \<le> c \<and> c \<le> 90 then c + 32
      else if 192 \<le> c \<and> c \<le> 222 \<and> c \<noteq> 215 then c + 32
      else if 1040 \<le> c \<and> c \<le> 1071 then c + 32
      else if 1024 \<le> c \<and> c \<le> 1039 then c + 80
      else c)"

text \<open>
  \<^verbatim>\<open>text.split(sep, 1)\<close> for a one-character separator: the text itself when the separator does
  not occur, otherwise the part before the first occurrence and the whole rest after it.
\<close>

definition split_first :: "nat \<Rightarrow> pystr \<Rightarrow> pystr list" where
  "split_first sep s =
     (if sep \<in> set s
      then [takeWhile (\<lambda>c. c \<noteq> sep) s, tl (dropWhile (\<lambda>c. c \<noteq> sep) s)]
      else [s])"

section \<open>The store\<close>

text \<open>
  The four tables created by \<^verbatim>\<open>initialize_database\<close>, with the columns the handlers read or
  write. The timestamp columns and the name columns of \<^verbatim>\<open>users\<close> are filled by defaults or by
  the transport and are never read; they are left out. Rows are kept in table order.
  The two sequences behind the \<^verbatim>\<open>SERIAL\<close> keys are part of the state.
\<close>

record user_row =
  u_user_id :: int
  u_difficulty :: "pystr option"

record common_word =
  cw_word_id :: int
  cw_english_word :: pystr
  cw_russian_translation :: pystr
  cw_word_type :: "pystr option"

record user_word =
  uw_user_word_id :: int
  uw_user_id :: int
  uw_english_word :: pystr
  uw_russian_translation :: pystr
  uw_is_active :: bool

record user_stat =
  st_stat_id :: int
  st_user_id :: int
  st_word_id :: int
  st_is_correct :: bool

record database =
  users :: "user_row list"
  common_words :: "common_word list"
  user_words :: "user_word list"
  user_stats :: "user_stat list"
  user_word_seq :: int
  stat_seq :: int

text \<open>
  What the handler cannot control: whether \<^verbatim>\<open>safe_connect\<close> obtains a connection
  (\<open>connect_ok\<close>; otherwise it returns \<^verbatim>\<open>None\<close>), and whether statements sent over an
  open connection execute (\<open>execute_ok\<close>; otherwise the first \<^verbatim>\<open>cur.execute\<close> raises).
  Constraint violations are raised by the store itself and are computed from its state.
\<close>

record env =
  connect_ok :: bool
  execute_ok :: bool

text \<open>
  The handler that lower-cases text also depends on the Python runtime: \<open>unicode_lower\<close> is
  its \<^verbatim>\<open>str.lower()\<close>. It is consulted only for texts with a code point outside the table.
\<close>

record runtime = env +
  unicode_lower :: "pystr \<Rightarrow> pystr"

definition py_lower :: "runtime \<Rightarrow> pystr \<Rightarrow> pystr" where
  "py_lower e s = (if list_all in_lower_table s then map lower_cp s else unicode_lower e s)"

datatype py_error = ValueError | KeyError | AttributeError | DatabaseError

definition user_exists :: "database \<Rightarrow> int \<Rightarrow> bool" where
  "user_exists db uid = (uid \<in> set (map u_user_id (users db)))"

text \<open>
  \<^verbatim>\<open>INSERT INTO user_words (user_id, english_word, russian_translation)\<close>: the key comes from
  the sequence, \<^verbatim>\<open>is_active\<close> from its default \<^verbatim>\<open>TRUE\<close>. The statement raises when the
  connection fails, when \<^verbatim>\<open>user_id\<close> is not a key of \<^verbatim>\<open>users\<close> (foreign key), or when a
  text is longer than its \<^verbatim>\<open>VARCHAR(100)\<close> column.
\<close>

definition insert_user_word ::
    "'a env_scheme \<Rightarrow> database \<Rightarrow> int \<Rightarrow> pystr \<Rightarrow> pystr \<Rightarrow> py_error + database" where
  "insert_user_word e db uid english russian =
     (if \<not> execute_ok e then Inl DatabaseError
      else if \<not> user_exists db uid then Inl DatabaseError
      else if length english > 100 \<or> length russian > 100 then Inl DatabaseError
      else Inr (db\<lparr>user_words := user_words db @
                    [\<lparr>uw_user_word_id = user_word_seq db, uw_user_id = uid,
                      uw_english_word = english, uw_russian_translation = russian,
                      uw_is_active = True\<rparr>],
                  user_word_seq := user_word_seq db + 1\<rparr>))"

text \<open>\<^verbatim>\<open>INSERT INTO user_stats (user_id, word_id, is_correct)\<close>, with the same failure cases.\<close>

definition insert_user_stat ::
    "'a env_scheme \<Rightarrow> database \<Rightarrow> int \<Rightarrow> int \<Rightarrow> bool \<Rightarrow> py_error + database" where
  "insert_user_stat e db uid wid ok =
     (if \<not> execute_ok e then Inl DatabaseError
      else if \<not> user_exists db uid then Inl DatabaseError
      else Inr (db\<lparr>user_stats := user_stats db @
                    [\<lparr>st_stat_id = stat_seq db, st_user_id = uid, st_word_id = wid,
                      st_is_correct = ok\<rparr>],
                  stat_seq := stat_seq db + 1\<rparr>))"

text \<open>\<^verbatim>\<open>SELECT ... FROM user_words WHERE user_id = %s AND is_active = TRUE\<close>\<close>

definition active_user_words :: "database \<Rightarrow> int \<Rightarrow> user_word list" where
  "active_user_words db uid =
     filter (\<lambda>w. uw_user_id w = uid \<and> uw_is_active w) (user_words db)"

definition count_active_user_words :: "database \<Rightarrow> int \<Rightarrow> nat" where
  "count_active_user_words db uid = length (active_user_words db uid)"

text \<open>
  \<^verbatim>\<open>UPDATE user_words SET is_active = FALSE WHERE user_word_id = %s AND user_id = %s\<close>
\<close>

definition deactivate_user_word :: "database \<Rightarrow> int \<Rightarrow> int \<Rightarrow> database" where
  "deactivate_user_word db wid uid =
     db\<lparr>user_words :=
          map (\<lambda>w. if uw_user_word_id w = wid \<and> uw_user_id w = uid
                   then w\<lparr>uw_is_active := False\<rparr> else w) (user_words db)\<rparr>"

text \<open>
  What the primary key of \<^verbatim>\<open>user_words\<close> and its sequence guarantee: no two rows share a
  key, and every key in the table was handed out by the sequence before its current value.
\<close>

definition key_invariant :: "database \<Rightarrow> bool" where
  "key_invariant db \<longleftrightarrow>
     distinct (map uw_user_word_id (user_words db)) \<and>
     list_all (\<lambda>w. uw_user_word_id w < user_word_seq db) (user_words db)"

text \<open>\<^verbatim>\<open>SELECT difficulty FROM users WHERE user_id = %s\<close>, then \<^verbatim>\<open>fetchone()\<close>.\<close>

definition select_difficulty :: "database \<Rightarrow> int \<Rightarrow> pystr option option" where
  "select_difficulty db uid =
     (case filter (\<lambda>u. u_user_id u = uid) (users db) of
        [] \<Rightarrow> None
      | u # _ \<Rightarrow> Some (u_difficulty u))"

section \<open>Difficulty levels\<close>

text \<open>
  \<^verbatim>\<open>DIFFICULTY_LEVELS[difficulty]['words_limit']\<close>: a dictionary lookup, which raises
  \<^verbatim>\<open>KeyError\<close> on any other key.
\<close>

definition words_limit :: "pystr \<Rightarrow> nat option" where
  "words_limit d =
     (if d = ascii ''easy'' then Some 10
      else if d = ascii ''medium'' then Some 20
      else if d = ascii ''hard'' then Some 50
      else None)"

text \<open>
  \<^verbatim>\<open>difficulty_row[0] if difficulty_row and difficulty_row[0] else 'medium'\<close>: a missing row, a
  \<^verbatim>\<open>NULL\<close> and the empty text all give the default.
\<close>

definition difficulty_or_default :: "pystr option option \<Rightarrow> pystr" where
  "difficulty_or_default row =
     (case row of
        Some (Some d) \<Rightarrow> if d = [] then ascii ''medium'' else d
      | _ \<Rightarrow> ascii ''medium'')"

section \<open>Random choices\<close>

text \<open>
  \<^verbatim>\<open>ORDER BY RANDOM()\<close> and \<^verbatim>\<open>random.shuffle\<close> put rows in an arbitrary order. The order is
  driven by a list of numbers supplied from outside: each number picks the next row among
  those not yet placed. Properties are proved for every such list.
\<close>

fun order_by_random :: "nat list \<Rightarrow> 'a list \<Rightarrow> 'a list" where
  "order_by_random rs [] = []"
| "order_by_random [] (x # xs) = x # xs"
| "order_by_random (r # rs) (x # xs) =
     (let i = r mod length (x # xs)
      in (x # xs) ! i # order_by_random rs (take i (x # xs) @ drop (Suc i) (x # xs)))"

record rand =
  r_common :: "nat list"
  r_user :: "nat list"
  r_combined :: "nat list"
  r_wrong :: "nat list"
  r_shuffle :: "nat list"

section \<open>Messages and handler results\<close>

text \<open>
  An incoming message carries the sender and a text, which is \<^verbatim>\<open>None\<close> for a message that is
  not a text message. Each outgoing message is one of the fixed texts of \<^verbatim>\<open>main.py\<close> with
  the values it interpolates, together with the keyboard sent along.
\<close>

record message =
  from_user_id :: int
  msg_text :: "pystr option"

datatype source_type = common | user

text \<open>
  \<open>OptionsKeyboard bs\<close> is the one-time keyboard with one button for each text of \<open>bs\<close>,
  followed by the main-menu button.
\<close>

datatype markup =
    MainKeyboard
  | OptionsKeyboard "pystr list"
  | NextQuestionKeyboard
  | ReplyKeyboardRemove

datatype reply =
    DbConnectError
  | Welcome
  | ChooseAction
  | NoWordsForQuiz
  | QuizQuestion pystr pystr
  | QuizStartError
  | AnswerCorrect
  | AnswerIncorrect
  | WordAdded pystr nat
  | AddWordError
  | InvalidFormat
  | NoWordsToRemove
  | ChooseWordToRemove
  | RemoveListError
  | WordNotFound
  | WordRemoved pystr nat
  | RemoveWordError
  | StatsReport pystr nat nat nat int
  | StatsError

datatype next_step =
    CheckQuizAnswer pystr source_type int
  | ConfirmRemove "pystr \<rightharpoonup> int"

text \<open>
  What one handler call does: the messages sent, the committed state of the store, the
  handler registered for the user's next message, and the exception that left the handler
  uncaught, if any.
\<close>

record outcome =
  sent :: "(reply \<times> markup) list"
  db_after :: database
  next_handler :: "next_step option"
  raised :: "py_error option"

definition respond :: "database \<Rightarrow> reply \<Rightarrow> markup \<Rightarrow> outcome" where
  "respond db r m = \<lparr>sent = [(r, m)], db_after = db, next_handler = None, raised = None\<rparr>"

definition silent :: "database \<Rightarrow> outcome" where
  "silent db = \<lparr>sent = [], db_after = db, next_handler = None, raised = None\<rparr>"

section \<open>Starting a quiz\<close>

text \<open>
  The \<^verbatim>\<open>WHERE\<close> clause on \<^verbatim>\<open>common_words\<close> in the three branches of \<^verbatim>\<open>start_quiz\<close>.
  A \<^verbatim>\<open>NULL\<close> category fails \<^verbatim>\<open>word_type IN (...)\<close> and passes
  \<^verbatim>\<open>word_type != ... OR word_type IS NULL\<close>. The last branch is the \<^verbatim>\<open>else\<close> of the source
  and has no \<^verbatim>\<open>WHERE\<close> clause.
\<close>

definition common_eligible :: "pystr \<Rightarrow> common_word \<Rightarrow> bool" where
  "common_eligible difficulty w =
     (if difficulty = ascii ''easy''
      then (case cw_word_type w of
              None \<Rightarrow> False
            | Some t \<Rightarrow> t = type_colour \<or> t = type_pronoun \<or> t = type_number)
      else if difficulty = ascii ''medium''
      then (case cw_word_type w of None \<Rightarrow> True | Some t \<Rightarrow> t \<noteq> type_difficult)
      else True)"

type_synonym question_row = "source_type \<times> int \<times> pystr \<times> pystr"

definition common_row :: "common_word \<Rightarrow> question_row" where
  "common_row w = (common, cw_word_id w, cw_english_word w, cw_russian_translation w)"

definition user_row_of :: "user_word \<Rightarrow> question_row" where
  "user_row_of w = (user, uw_user_word_id w, uw_english_word w, uw_russian_translation w)"

text \<open>
  The candidates of the two inner \<^verbatim>\<open>SELECT\<close>s, each \<^verbatim>\<open>ORDER BY RANDOM() LIMIT words_limit\<close>.
\<close>

definition common_candidates :: "rand \<Rightarrow> database \<Rightarrow> pystr \<Rightarrow> nat \<Rightarrow> common_word list" where
  "common_candidates rnd db difficulty limit =
     take limit (order_by_random (r_common rnd)
                   (filter (common_eligible difficulty) (common_words db)))"

definition user_candidates :: "rand \<Rightarrow> database \<Rightarrow> int \<Rightarrow> nat \<Rightarrow> user_word list" where
  "user_candidates rnd db uid limit =
     take limit (order_by_random (r_user rnd) (active_user_words db uid))"

text \<open>
  The whole question query: the \<^verbatim>\<open>UNION ALL\<close> of the two candidate lists,
  \<^verbatim>\<open>ORDER BY RANDOM() LIMIT 1\<close>, read with \<^verbatim>\<open>fetchone()\<close>.
\<close>

definition select_question_word ::
    "rand \<Rightarrow> database \<Rightarrow> int \<Rightarrow> pystr \<Rightarrow> nat \<Rightarrow> question_row option" where
  "select_question_word rnd db uid difficulty limit =
     (case take 1 (order_by_random (r_combined rnd)
                     (map common_row (common_candidates rnd db difficulty limit) @
                      map user_row_of (user_candidates rnd db uid limit))) of
        [] \<Rightarrow> None
      | row # _ \<Rightarrow> Some row)"

text \<open>
  The query for the wrong options: the translations of all common words and of the user's
  active words that differ from the correct one, \<^verbatim>\<open>UNION ALL\<close>,
  \<^verbatim>\<open>ORDER BY RANDOM() LIMIT 3\<close>.
\<close>

definition wrong_option_pool :: "database \<Rightarrow> int \<Rightarrow> pystr \<Rightarrow> pystr list" where
  "wrong_option_pool db uid correct_translation =
     map cw_russian_translation
       (filter (\<lambda>w. cw_russian_translation w \<noteq> correct_translation) (common_words db)) @
     map uw_russian_translation
       (filter (\<lambda>w. uw_user_id w = uid \<and> uw_russian_translation w \<noteq> correct_translation \<and>
                    uw_is_active w) (user_words db))"

definition select_wrong_answers :: "rand \<Rightarrow> database \<Rightarrow> int \<Rightarrow> pystr \<Rightarrow> pystr list" where
  "select_wrong_answers rnd db uid correct_translation =
     take 3 (order_by_random (r_wrong rnd) (wrong_option_pool db uid correct_translation))"

text \<open>
  \<^verbatim>\<open>start_quiz\<close>. Without a connection the connection error is sent. Everything after that
  runs inside \<^verbatim>\<open>try\<close>: a failing statement and an unknown difficulty key (\<^verbatim>\<open>KeyError\<close>) both
  end in the quiz error message. The keyboard holds the shuffled options, followed by the
  main-menu button.
\<close>

definition start_quiz :: "'a env_scheme \<Rightarrow> rand \<Rightarrow> database \<Rightarrow> message \<Rightarrow> outcome" where
  "start_quiz e rnd db msg =
     (let user_id = from_user_id msg in
      if \<not> connect_ok e then respond db DbConnectError MainKeyboard
      else if \<not> execute_ok e then respond db QuizStartError MainKeyboard
      else
        let difficulty = difficulty_or_default (select_difficulty db user_id) in
        case words_limit difficulty of
          None \<Rightarrow> respond db QuizStartError MainKeyboard
        | Some limit \<Rightarrow>
            (case select_question_word rnd db user_id difficulty limit of
               None \<Rightarrow> respond db NoWordsForQuiz MainKeyboard
             | Some (src, word_id, english_word, correct_translation) \<Rightarrow>
                 let wrong_answers = select_wrong_answers rnd db user_id correct_translation;
                     options = order_by_random (r_shuffle rnd)
                                 (correct_translation # wrong_answers)
                 in \<lparr>sent = [(QuizQuestion difficulty english_word, OptionsKeyboard options)],
                     db_after = db,
                     next_handler = Some (CheckQuizAnswer correct_translation src word_id),
                     raised = None\<rparr>))"

section \<open>Answering a quiz question\<close>

text \<open>
  \<^verbatim>\<open>check_quiz_answer\<close>. The main-menu text returns before anything is compared or stored.
  Otherwise the answer is compared with \<^verbatim>\<open>==\<close>, the result is inserted (\<^verbatim>\<open>word_id\<close> for a
  common word, \<^verbatim>\<open>-word_id\<close> for a user word) when a connection is there, an exception of the
  insert is printed and dropped, and the feedback is sent in every case.
\<close>

definition check_quiz_answer ::
    "'a env_scheme \<Rightarrow> database \<Rightarrow> message \<Rightarrow> pystr \<Rightarrow> source_type \<Rightarrow> int \<Rightarrow> outcome" where
  "check_quiz_answer e db msg correct_answer src word_id =
     (let user_answer = msg_text msg; user_id = from_user_id msg in
      if user_answer = Some main_menu_text then respond db ChooseAction MainKeyboard
      else
        let is_correct = (user_answer = Some correct_answer);
            response = (if is_correct then AnswerCorrect else AnswerIncorrect);
            db1 = (if connect_ok e
                   then (case insert_user_stat e db user_id
                                (if src = common then word_id else - word_id) is_correct of
                           Inl err \<Rightarrow> db
                         | Inr db2 \<Rightarrow> db2)
                   else db)
        in respond db1 response NextQuestionKeyboard)"

section \<open>Registration\<close>

text \<open>
  \<^verbatim>\<open>start\<close>. Without a connection the handler returns at once and sends nothing. The
  statements run in \<^verbatim>\<open>with conn\<close> outside any \<^verbatim>\<open>try\<close>, so their exception leaves the
  handler. A user who is not stored yet is inserted with difficulty \<^verbatim>\<open>'medium'\<close>.
\<close>

definition start :: "'a env_scheme \<Rightarrow> database \<Rightarrow> message \<Rightarrow> outcome" where
  "start e db msg =
     (let uid = from_user_id msg in
      if \<not> connect_ok e then silent db
      else if \<not> execute_ok e
      then \<lparr>sent = [], db_after = db, next_handler = None, raised = Some DatabaseError\<rparr>
      else
        let db1 = (if user_exists db uid then db
                   else db\<lparr>users := users db @
                          [\<lparr>u_user_id = uid, u_difficulty = Some (ascii ''medium'')\<rparr>]\<rparr>)
        in respond db1 Welcome MainKeyboard)"

section \<open>Adding a word\<close>

text \<open>
  \<^verbatim>\<open>process_new_word\<close>. \<^verbatim>\<open>message.text.strip()\<close> stands before the \<^verbatim>\<open>try\<close>, so a message
  without text raises \<^verbatim>\<open>AttributeError\<close> out of the handler. Unpacking the split into two
  names raises \<^verbatim>\<open>ValueError\<close> when there is one part only, as the explicit \<^verbatim>\<open>raise\<close> does for
  an empty part; both end in the format message. With a valid format and no connection
  nothing is sent. The confirmation shows the word as typed (stripped, not lower-cased) and
  the number of active words after the insert.
\<close>

definition parse_word_pair :: "pystr \<Rightarrow> py_error + pystr \<times> pystr" where
  "parse_word_pair raw =
     (case map py_strip (split_first 45 (py_strip raw)) of
        [english, russian] \<Rightarrow>
          if english = [] \<or> russian = [] then Inl ValueError else Inr (english, russian)
      | _ \<Rightarrow> Inl ValueError)"

definition process_new_word :: "runtime \<Rightarrow> database \<Rightarrow> message \<Rightarrow> outcome" where
  "process_new_word e db msg =
     (let user_id = from_user_id msg in
      case msg_text msg of
        None \<Rightarrow> \<lparr>sent = [], db_after = db, next_handler = None, raised = Some AttributeError\<rparr>
      | Some raw \<Rightarrow>
          (case parse_word_pair raw of
             Inl err \<Rightarrow> respond db InvalidFormat MainKeyboard
           | Inr (english, russian) \<Rightarrow>
               if \<not> connect_ok e then silent db
               else
                 (case insert_user_word e db user_id (py_lower e english) (py_lower e russian) of
                    Inl err \<Rightarrow> respond db AddWordError MainKeyboard
                  | Inr db1 \<Rightarrow>
                      respond db1
                        (WordAdded english (count_active_user_words db1 user_id))
                        MainKeyboard)))"

text \<open>
  The format as the specification words it: the input splits at its first \<^verbatim>\<open>-\<close> (code
  point 45) into two segments, and both are non-empty after trimming. \<open>spec_segments\<close> gives
  the two trimmed segments of an input that contains the separator.
\<close>

definition spec_segments :: "pystr \<Rightarrow> (pystr \<times> pystr) option" where
  "spec_segments raw =
     (if 45 \<in> set raw
      then Some (py_strip (takeWhile (\<lambda>c. c \<noteq> 45) raw),
                 py_strip (tl (dropWhile (\<lambda>c. c \<noteq> 45) raw)))
      else None)"

definition spec_valid_format :: "pystr \<Rightarrow> bool" where
  "spec_valid_format raw =
     (case spec_segments raw of
        None \<Rightarrow> False
      | Some (english, russian) \<Rightarrow> english \<noteq> [] \<and> russian \<noteq> [])"

section \<open>Removing a word\<close>

text \<open>
  \<^verbatim>\<open>remove_word\<close> lists the user's active words, shows one button for each and builds
  \<^verbatim>\<open>word_dict\<close> by assigning \<^verbatim>\<open>word_dict[english_word] = word_id\<close> row after row, so of two
  rows with the same word the later one stays. The dictionary goes to \<^verbatim>\<open>confirm_remove\<close>.
\<close>

definition build_word_dict :: "user_word list \<Rightarrow> (pystr \<rightharpoonup> int)" where
  "build_word_dict ws =
     foldl (\<lambda>m w. m(uw_english_word w \<mapsto> uw_user_word_id w)) Map.empty ws"

definition remove_word :: "'a env_scheme \<Rightarrow> database \<Rightarrow> message \<Rightarrow> outcome" where
  "remove_word e db msg =
     (let user_id = from_user_id msg in
      if \<not> connect_ok e then respond db DbConnectError MainKeyboard
      else if \<not> execute_ok e then respond db RemoveListError MainKeyboard
      else
        let ws = active_user_words db user_id in
        if ws = [] then respond db NoWordsToRemove MainKeyboard
        else \<lparr>sent = [(ChooseWordToRemove, OptionsKeyboard (map uw_english_word ws))],
              db_after = db,
              next_handler = Some (ConfirmRemove (build_word_dict ws)),
              raised = None\<rparr>)"

text \<open>
  \<^verbatim>\<open>confirm_remove\<close>. The main-menu text goes back to the menu; a text that is not a key of
  \<^verbatim>\<open>word_dict\<close> gets the not-found message; otherwise the row is updated and the new count
  reported. With no connection nothing is sent.
\<close>

definition confirm_remove ::
    "'a env_scheme \<Rightarrow> database \<Rightarrow> message \<Rightarrow> (pystr \<rightharpoonup> int) \<Rightarrow> outcome" where
  "confirm_remove e db msg word_dict =
     (let user_id = from_user_id msg; word_to_remove = msg_text msg in
      if word_to_remove = Some main_menu_text then respond db ChooseAction MainKeyboard
      else
        (case (case word_to_remove of None \<Rightarrow> None | Some w \<Rightarrow> map_option (Pair w) (word_dict w)) of
           None \<Rightarrow> respond db WordNotFound MainKeyboard
         | Some (w, wid) \<Rightarrow>
             if \<not> connect_ok e then silent db
             else if \<not> execute_ok e then respond db RemoveWordError MainKeyboard
             else
               let db1 = deactivate_user_word db wid user_id
               in respond db1 (WordRemoved w (count_active_user_words db1 user_id))
                    MainKeyboard))"

section \<open>Statistics\<close>

text \<open>
  \<^verbatim>\<open>correct_answers / total_answers * 100\<close> is computed in binary64 floating point: the true
  division of two integers gives the double nearest to the quotient, the product with
  \<^verbatim>\<open>100\<close> the double nearest to the product, each with ties to the even significand.
  The values here are finite and not negative, so a double is represented by the rational
  number it denotes. \<open>binary64_exponent x\<close> is the \<open>e\<close> with \<open>2^e \<le> x < 2^(e+1)\<close>, and a double
  in that range is a multiple of \<open>2^(e-52)\<close>. (The counts are \<^verbatim>\<open>COUNT(*)\<close> results, below
  \<open>2^63\<close>, so the quotient of two of them is never small enough to be subnormal.)
\<close>

definition round_half_even :: "rat \<Rightarrow> int" where
  "round_half_even x =
     (let f = \<lfloor>x\<rfloor>; d = x - of_int f in
      if d < 1 / 2 then f
      else if 1 / 2 < d then f + 1
      else if even f then f else f + 1)"

definition binary64_exponent :: "rat \<Rightarrow> int" where
  "binary64_exponent x =
     (if 1 \<le> x then bitlen \<lfloor>x\<rfloor> - 1 else - bitlen (\<lceil>1 / x\<rceil> - 1))"

definition round_binary64 :: "rat \<Rightarrow> rat" where
  "round_binary64 x =
     (if x = 0 then 0
      else let ulp = power_int 2 (binary64_exponent x - 52)
           in of_int (round_half_even (x / ulp)) * ulp)"

text \<open>
  The value of \<^verbatim>\<open>accuracy\<close>: the float expression for a positive total, the integer \<^verbatim>\<open>0\<close>
  otherwise.
\<close>

definition accuracy_value :: "nat \<Rightarrow> nat \<Rightarrow> rat" where
  "accuracy_value correct_answers total_answers =
     (if total_answers > 0
      then round_binary64
             (round_binary64 (of_nat correct_answers / of_nat total_answers) * 100)
      else 0)"

text \<open>
  \<^verbatim>\<open>f"{accuracy:.1f}"\<close> prints the decimal with one digit after the point that is nearest to
  the value, ties to the even digit. The printed number is given in tenths: \<open>500\<close> stands for
  \<^verbatim>\<open>50.0\<close>.
\<close>

definition format_1f :: "rat \<Rightarrow> int" where
  "format_1f x = round_half_even (x * 10)"

text \<open>
  \<^verbatim>\<open>show_stats\<close>: the three counts are read from the store on every call. The level name is
  looked up in \<^verbatim>\<open>DIFFICULTY_LEVELS\<close> while the message is built, inside \<^verbatim>\<open>try\<close>.
\<close>

definition count_correct_answers :: "database \<Rightarrow> int \<Rightarrow> nat" where
  "count_correct_answers db uid =
     length (filter (\<lambda>s. st_user_id s = uid \<and> st_is_correct s) (user_stats db))"

definition count_total_answers :: "database \<Rightarrow> int \<Rightarrow> nat" where
  "count_total_answers db uid = length (filter (\<lambda>s. st_user_id s = uid) (user_stats db))"

definition show_stats :: "'a env_scheme \<Rightarrow> database \<Rightarrow> message \<Rightarrow> outcome" where
  "show_stats e db msg =
     (let user_id = from_user_id msg in
      if \<not> connect_ok e then respond db DbConnectError MainKeyboard
      else if \<not> execute_ok e then respond db StatsError MainKeyboard
      else
        let difficulty = difficulty_or_default (select_difficulty db user_id);
            total_words = count_active_user_words db user_id;
            correct_answers = count_correct_answers db user_id;
            total_answers = count_total_answers db user_id;
            accuracy = accuracy_value correct_answers total_answers
        in case words_limit difficulty of
             None \<Rightarrow> respond db StatsError MainKeyboard
           | Some _ \<Rightarrow>
               respond db
                 (StatsReport difficulty total_words correct_answers total_answers
                    (format_1f accuracy))
                 MainKeyboard)"

section \<open>Example data\<close>

text \<open>
  Two runtimes for the examples: the store reachable and working, and the store unreachable.
  The examples lower-case only texts inside the table, so the runtime's own mapping is never
  consulted; it is set to leave a text as it is.
\<close>

definition up_env :: runtime where
  "up_env = \<lparr>connect_ok = True, execute_ok = True, unicode_lower = (\<lambda>s. s)\<rparr>"

definition no_rand :: rand where
  "no_rand = \<lparr>r_common = [], r_user = [], r_combined = [], r_wrong = [], r_shuffle = []\<rparr>"

definition tr_red :: pystr where
  "tr_red = [1082, 1088, 1072, 1089, 1085, 1099, 1081]"

definition tr_blue :: pystr where
  "tr_blue = [1089, 1080, 1085, 1080, 1081]"

definition tr_one :: pystr where
  "tr_one = [1086, 1076, 1080, 1085]"

definition tr_abundance :: pystr where
  "tr_abundance = [1080, 1079, 1086, 1073, 1080, 1083, 1080, 1077]"

definition quiz_msg :: message where
  "quiz_msg = \<lparr>from_user_id = 1, msg_text = Some (ascii ''/quiz'')\<rparr>"

definition dup_db :: database where
  "dup_db =
     \<lparr>users = [\<lparr>u_user_id = 1, u_difficulty = Some (ascii ''medium'')\<rparr>],
      common_words =
        [\<lparr>cw_word_id = 1, cw_english_word = ascii ''red'', cw_russian_translation = tr_red,
          cw_word_type = Some type_colour\<rparr>,
         \<lparr>cw_word_id = 2, cw_english_word = ascii ''blue'', cw_russian_translation = tr_blue,
          cw_word_type = Some type_colour\<rparr>],
      user_words =
        [\<lparr>uw_user_word_id = 1, uw_user_id = 1, uw_english_word = ascii ''navy'',
          uw_russian_translation = tr_blue, uw_is_active = True\<rparr>],
      user_stats = [], user_word_seq = 2, stat_seq = 1\<rparr>"

definition scenario_db :: database where
  "scenario_db =
     \<lparr>users = [\<lparr>u_user_id = 1, u_difficulty = Some (ascii ''easy'')\<rparr>],
      common_words =
        [\<lparr>cw_word_id = 1, cw_english_word = ascii ''red'', cw_russian_translation = tr_red,
          cw_word_type = Some type_colour\<rparr>,
         \<lparr>cw_word_id = 2, cw_english_word = ascii ''one'', cw_russian_translation = tr_one,
          cw_word_type = Some type_number\<rparr>,
         \<lparr>cw_word_id = 3, cw_english_word = ascii ''abundance'',
          cw_russian_translation = tr_abundance, cw_word_type = Some type_difficult\<rparr>],
      user_words = [], user_stats = [], user_word_seq = 1, stat_seq = 1\<rparr>"


text \<open>The inputs \<^verbatim>\<open>"Apple - <Yabloko>"\<close> (the Russian for apple, capitalised) and its parts.\<close>

definition apple_input :: pystr where
  "apple_input = ascii ''Apple - '' @ [1071, 1073, 1083, 1086, 1082, 1086]"

definition tr_apple :: pystr where
  "tr_apple = [1103, 1073, 1083, 1086, 1082, 1086]"

definition down_env :: runtime where
  "down_env = \<lparr>connect_ok = False, execute_ok = False, unicode_lower = (\<lambda>s. s)\<rparr>"

text \<open>A store in which user 1 already has two entries for "apple", one of them removed.\<close>

definition apple_db :: database where
  "apple_db =
     \<lparr>users = [\<lparr>u_user_id = 1, u_difficulty = Some (ascii ''medium'')\<rparr>],
      common_words = [],
      user_words =
        [\<lparr>uw_user_word_id = 1, uw_user_id = 1, uw_english_word = ascii ''apple'',
          uw_russian_translation = tr_apple, uw_is_active = True\<rparr>,
         \<lparr>uw_user_word_id = 2, uw_user_id = 1, uw_english_word = ascii ''apple'',
          uw_russian_translation = tr_apple, uw_is_active = False\<rparr>],
      user_stats = [], user_word_seq = 3, stat_seq = 1\<rparr>"

text \<open>
  The store after user 1 has answered two questions on the word with key 1 of their own
  dictionary: first with the right translation, then with a wrong one.
\<close>

definition answered_db :: database where
  "answered_db =
     db_after (check_quiz_answer up_env
       (db_after (check_quiz_answer up_env apple_db
          \<lparr>from_user_id = 1, msg_text = Some tr_apple\<rparr> tr_apple user 1))
       \<lparr>from_user_id = 1, msg_text = Some (ascii ''pear'')\<rparr> tr_apple user 1)"

text \<open>
  A store in which user 1 has answered 80 questions on the common word 1, the first 23 of
  them correctly.
\<close>

definition tie_db :: database where
  "tie_db =
     scenario_db
       \<lparr>user_stats :=
          map (\<lambda>i. \<lparr>st_stat_id = int i, st_user_id = 1, st_word_id = 1,
                     st_is_correct = (i \<le> 23)\<rparr>) [1..<81],
        stat_seq := 81\<rparr>"
section \<open>Properties of the text functions\<close>

lemma not_isspace_hyphen: "\<not> py_isspace 45"
  by (simp add: py_isspace_def)

lemma dropWhile_rev_dropWhile_commute:
  "dropWhile P (rev (dropWhile P (rev xs))) = rev (dropWhile P (rev (dropWhile P xs)))"
proof (cases "\<forall>x\<in>set xs. P x")
  case True
  then have a: "dropWhile P xs = []" and b: "dropWhile P (rev xs) = []"
    by simp_all
  show ?thesis unfolding a b by simp
next
  case False
  then obtain y zs where d: "dropWhile P xs = y # zs" and y: "\<not> P y"
    by (metis dropWhile_eq_Nil_conv hd_dropWhile list.exhaust_sel list.sel(1))
  let ?ws = "takeWhile P xs"
  have xs: "xs = ?ws @ y # zs" using d by (metis takeWhile_dropWhile_id)
  have ws: "\<And>x. x \<in> set ?ws \<Longrightarrow> P x" by (meson set_takeWhileD)
  have "rev (dropWhile P (rev (dropWhile P xs))) = y # rev (dropWhile P (rev zs))"
    using y by (simp add: d dropWhile_append3)
  moreover have "dropWhile P (rev (dropWhile P (rev xs))) = y # rev (dropWhile P (rev zs))"
  proof -
    have "rev xs = rev zs @ y # rev ?ws" by (subst xs) simp
    then have "dropWhile P (rev xs) = dropWhile P (rev zs) @ y # rev ?ws"
      using y by (simp add: dropWhile_append3)
    then have "rev (dropWhile P (rev xs)) = ?ws @ y # rev (dropWhile P (rev zs))"
      by simp
    then show ?thesis using y ws by (simp add: dropWhile_append2)
  qed
  ultimately show ?thesis by simp
qed

lemma py_strip_dropWhile: "py_strip (dropWhile py_isspace xs) = py_strip xs"
  by (simp add: py_strip_def)

lemma py_strip_rev_dropWhile: "py_strip (rev (dropWhile py_isspace (rev xs))) = py_strip xs"
proof -
  have "py_strip (rev (dropWhile py_isspace (rev xs))) =
          rev (dropWhile py_isspace (rev (rev (dropWhile py_isspace (rev (dropWhile py_isspace xs))))))"
    unfolding py_strip_def by (simp only: dropWhile_rev_dropWhile_commute)
  then show ?thesis by (simp add: py_strip_def)
qed

lemma py_strip_at_hyphen:
  "py_strip (a @ 45 # b) = dropWhile py_isspace a @ 45 # rev (dropWhile py_isspace (rev b))"
  by (simp add: py_strip_def dropWhile_append3 not_isspace_hyphen)

lemma hyphen_in_py_strip: "45 \<in> set (py_strip s) \<longleftrightarrow> 45 \<in> set s"
proof
  assume "45 \<in> set (py_strip s)"
  then show "45 \<in> set s"
    unfolding py_strip_def by (metis set_dropWhileD set_rev)
next
  assume "45 \<in> set s"
  then obtain a b where "s = a @ 45 # b" by (meson split_list)
  then show "45 \<in> set (py_strip s)" by (simp add: py_strip_at_hyphen)
qed

lemma split_at_first:
  assumes "sep \<in> set s"
  shows "s = takeWhile (\<lambda>c. c \<noteq> sep) s @ sep # tl (dropWhile (\<lambda>c. c \<noteq> sep) s)"
proof -
  have "dropWhile (\<lambda>c. c \<noteq> sep) s \<noteq> []" using assms by (simp add: dropWhile_eq_Nil_conv)
  moreover from this have "hd (dropWhile (\<lambda>c. c \<noteq> sep) s) = sep"
    using hd_dropWhile[of "\<lambda>c. c \<noteq> sep" s] by simp
  ultimately have "dropWhile (\<lambda>c. c \<noteq> sep) s = sep # tl (dropWhile (\<lambda>c. c \<noteq> sep) s)"
    by (metis list.collapse)
  then show ?thesis by (metis takeWhile_dropWhile_id)
qed

lemma split_first_at:
  assumes "sep \<notin> set a"
  shows "split_first sep (a @ sep # b) = [a, b]"
proof -
  have ne: "\<And>x. x \<in> set a \<Longrightarrow> x \<noteq> sep" using assms by auto
  have "takeWhile (\<lambda>c. c \<noteq> sep) (a @ sep # b) = a"
    using ne by (simp add: takeWhile_append2)
  moreover have "dropWhile (\<lambda>c. c \<noteq> sep) (a @ sep # b) = sep # b"
    using ne by (simp add: dropWhile_append2)
  ultimately show ?thesis by (simp add: split_first_def)
qed

text \<open>The parser of the source computes the specification's segments.\<close>

lemma parse_word_pair_spec:
  "parse_word_pair raw =
     (case spec_segments raw of
        None \<Rightarrow> Inl ValueError
      | Some (english, russian) \<Rightarrow>
          if english = [] \<or> russian = [] then Inl ValueError else Inr (english, russian))"
proof (cases "45 \<in> set raw")
  case False
  then have "45 \<notin> set (py_strip raw)" by (simp add: hyphen_in_py_strip)
  then show ?thesis using False
    by (simp add: parse_word_pair_def split_first_def spec_segments_def del: One_nat_def)
next
  case True
  let ?a = "takeWhile (\<lambda>c. c \<noteq> 45) raw"
  let ?b = "tl (dropWhile (\<lambda>c. c \<noteq> 45) raw)"
  have raw: "raw = ?a @ 45 # ?b" by (rule split_at_first[OF True])
  have a: "45 \<notin> set (dropWhile py_isspace ?a)"
    by (metis (mono_tags, lifting) set_dropWhileD set_takeWhileD)
  have "py_strip raw = dropWhile py_isspace ?a @ 45 # rev (dropWhile py_isspace (rev ?b))"
    by (subst raw) (rule py_strip_at_hyphen)
  then have "split_first 45 (py_strip raw) =
          [dropWhile py_isspace ?a, rev (dropWhile py_isspace (rev ?b))]"
    using split_first_at[OF a] by simp
  then have "map py_strip (split_first 45 (py_strip raw)) = [py_strip ?a, py_strip ?b]"
    by (simp add: py_strip_dropWhile py_strip_rev_dropWhile)
  then show ?thesis using True
    by (simp add: parse_word_pair_def spec_segments_def)
qed

lemma parse_word_pair_valid:
  "spec_valid_format raw \<longleftrightarrow> (\<exists>en ru. parse_word_pair raw = Inr (en, ru))"
  by (auto simp: parse_word_pair_spec spec_valid_format_def split: option.splits)

lemma mset_remove_nth:
  assumes "i < length ys"
  shows "add_mset (ys ! i) (mset (take i ys @ drop (Suc i) ys)) = mset ys"
proof -
  have "mset ys = mset (take i ys @ ys ! i # drop (Suc i) ys)"
    by (rule arg_cong[OF id_take_nth_drop[OF assms]])
  also have "\<dots> = add_mset (ys ! i) (mset (take i ys @ drop (Suc i) ys))"
    by simp
  finally show ?thesis by simp
qed

lemma mset_order_by_random: "mset (order_by_random rs xs) = mset xs"
proof (induction rs xs rule: order_by_random.induct)
  case (3 r rs x xs)
  let ?ys = "x # xs"
  let ?i = "r mod length ?ys"
  have "mset (order_by_random (r # rs) ?ys) =
          add_mset (?ys ! ?i) (mset (order_by_random rs (take ?i ?ys @ drop (Suc ?i) ?ys)))"
    by (simp add: Let_def)
  also have "\<dots> = add_mset (?ys ! ?i) (mset (take ?i ?ys @ drop (Suc ?i) ?ys))"
    by (simp only: 3[OF refl])
  also have "\<dots> = mset ?ys"
    by (rule mset_remove_nth) simp
  finally show ?case .
qed simp_all

lemma set_order_by_random: "set (order_by_random rs xs) = set xs"
  by (metis mset_order_by_random set_mset_mset)

lemma length_order_by_random: "length (order_by_random rs xs) = length xs"
  by (metis mset_order_by_random size_mset)

lemma distinct_order_by_random: "distinct (order_by_random rs xs) = distinct xs"
  by (metis mset_order_by_random mset_eq_imp_distinct_iff)

lemma count_order_by_random: "count_list (order_by_random rs xs) y = count_list xs y"
  by (metis mset_order_by_random count_mset)

lemma order_by_random_first:
  assumes "i < length xs"
  shows "\<exists>ys. order_by_random [i] xs = xs ! i # ys"
  using assms by (cases xs) (simp_all add: Let_def)

text \<open>Every order of the rows is produced by some list of numbers.\<close>

lemma order_by_random_complete:
  "mset ys = mset xs \<Longrightarrow> \<exists>rs. order_by_random rs xs = ys"
proof (induction ys arbitrary: xs)
  case Nil
  then show ?case by simp
next
  case (Cons y ys)
  then have "y \<in> set xs" by (metis list.set_intros(1) mset_eq_setD)
  then obtain i where i: "i < length xs" "xs ! i = y" by (auto simp: in_set_conv_nth)
  let ?rest = "take i xs @ drop (Suc i) xs"
  have "add_mset y (mset ?rest) = add_mset y (mset ys)"
    using mset_remove_nth[OF i(1)] i(2) Cons.prems by simp
  then have "mset ys = mset ?rest" by simp
  from Cons.IH[OF this] obtain rs where rs: "order_by_random rs ?rest = ys" by blast
  obtain x xs' where xs: "xs = x # xs'" using i(1) by (cases xs) auto
  have "order_by_random (i # rs) xs = y # ys"
    using i rs unfolding xs by (simp add: Let_def del: take_Cons' drop_Suc_Cons nth_Cons')
  then show ?case by blast
qed

lemma start_quiz_question:
  assumes "sent (start_quiz e rnd db msg) = [(QuizQuestion d en, OptionsKeyboard options)]"
      and "next_handler (start_quiz e rnd db msg) = Some (CheckQuizAnswer correct src wid)"
  shows "connect_ok e \<and> execute_ok e \<and>
         d = difficulty_or_default (select_difficulty db (from_user_id msg)) \<and>
         (\<exists>limit. words_limit d = Some limit \<and>
            select_question_word rnd db (from_user_id msg) d limit = Some (src, wid, en, correct)) \<and>
         options = order_by_random (r_shuffle rnd)
                     (correct # select_wrong_answers rnd db (from_user_id msg) correct)"
  using assms
  by (auto simp: start_quiz_def respond_def Let_def split: if_splits option.splits prod.splits)

lemma select_question_word_sound:
  assumes "select_question_word rnd db uid d limit = Some row"
  shows "(\<exists>w\<in>set (common_words db). common_eligible d w \<and> row = common_row w) \<or>
         (\<exists>w\<in>set (active_user_words db uid). row = user_row_of w)"
proof -
  let ?all = "map common_row (common_candidates rnd db d limit) @
              map user_row_of (user_candidates rnd db uid limit)"
  from assms have "row \<in> set (take 1 (order_by_random (r_combined rnd) ?all))"
    by (auto simp: select_question_word_def split: list.splits)
  then have "row \<in> set (order_by_random (r_combined rnd) ?all)"
    by (rule in_set_takeD)
  then have "row \<in> set ?all"
    by (simp only: set_order_by_random)
  then consider w where "w \<in> set (common_candidates rnd db d limit)" "row = common_row w"
    | w where "w \<in> set (user_candidates rnd db uid limit)" "row = user_row_of w"
    by auto
  then show ?thesis
  proof cases
    case 1
    then have "w \<in> set (filter (common_eligible d) (common_words db))"
      unfolding common_candidates_def
      using set_order_by_random[of "r_common rnd"] by (metis in_set_takeD)
    with 1 show ?thesis by auto
  next
    case 2
    then have "w \<in> set (active_user_words db uid)"
      unfolding user_candidates_def
      using set_order_by_random[of "r_user rnd"] by (metis in_set_takeD)
    with 2 show ?thesis by auto
  qed
qed

lemma select_question_word_Some:
  assumes "0 < limit"
      and "filter (common_eligible d) (common_words db) \<noteq> [] \<or> active_user_words db uid \<noteq> []"
  shows "\<exists>row. select_question_word rnd db uid d limit = Some row"
proof -
  let ?all = "map common_row (common_candidates rnd db d limit) @
              map user_row_of (user_candidates rnd db uid limit)"
  have "length ?all = min (length (filter (common_eligible d) (common_words db))) limit +
                      min (length (active_user_words db uid)) limit"
    by (simp add: common_candidates_def user_candidates_def length_order_by_random)
  with assms have "0 < length ?all" by (cases "filter (common_eligible d) (common_words db)") auto
  then have "0 < length (order_by_random (r_combined rnd) ?all)"
    by (simp only: length_order_by_random)
  then obtain a rest where "order_by_random (r_combined rnd) ?all = a # rest"
    by (cases "order_by_random (r_combined rnd) ?all") auto
  then have "select_question_word rnd db uid d limit = Some a"
    by (simp add: select_question_word_def)
  then show ?thesis by blast
qed

lemma select_wrong_answers_props:
  "length (select_wrong_answers rnd db uid c) \<le> 3"
  "set (select_wrong_answers rnd db uid c) \<subseteq> set (wrong_option_pool db uid c)"
  "c \<notin> set (wrong_option_pool db uid c)"
  "distinct (wrong_option_pool db uid c) \<Longrightarrow> distinct (select_wrong_answers rnd db uid c)"
proof -
  show "length (select_wrong_answers rnd db uid c) \<le> 3"
    by (simp add: select_wrong_answers_def)
  show "set (select_wrong_answers rnd db uid c) \<subseteq> set (wrong_option_pool db uid c)"
    unfolding select_wrong_answers_def
    using set_order_by_random[of "r_wrong rnd"] set_take_subset by metis
  show "c \<notin> set (wrong_option_pool db uid c)"
    by (auto simp: wrong_option_pool_def)
  show "distinct (wrong_option_pool db uid c) \<Longrightarrow> distinct (select_wrong_answers rnd db uid c)"
    unfolding select_wrong_answers_def
    by (simp add: distinct_order_by_random)
qed

lemma wrong_option_pool_rows:
  assumes "t \<in> set (wrong_option_pool db uid c)"
  shows "(\<exists>w\<in>set (common_words db). cw_russian_translation w = t) \<or>
         (\<exists>w\<in>set (active_user_words db uid). uw_russian_translation w = t)"
  using assms by (auto simp: wrong_option_pool_def active_user_words_def)



section \<open>Properties of the quiz question\<close>

lemmas text_defs = ascii_def main_menu_text_def type_colour_def type_pronoun_def type_number_def
  type_difficult_def tr_red_def tr_blue_def tr_one_def tr_abundance_def

lemma dup_eval:
  "start_quiz up_env no_rand dup_db quiz_msg =
     \<lparr>sent = [(QuizQuestion (ascii ''medium'') (ascii ''red''),
               OptionsKeyboard [tr_red, tr_blue, tr_blue])],
      db_after = dup_db,
      next_handler = Some (CheckQuizAnswer tr_red common 1),
      raised = None\<rparr>"
  by (simp add: start_quiz_def up_env_def no_rand_def dup_db_def quiz_msg_def
      select_difficulty_def difficulty_or_default_def words_limit_def select_question_word_def
      common_candidates_def user_candidates_def common_eligible_def active_user_words_def
      common_row_def user_row_of_def select_wrong_answers_def wrong_option_pool_def text_defs
      Let_def)

lemma words_limit_pos: "words_limit d = Some limit \<Longrightarrow> 0 < limit"
  by (auto simp: words_limit_def split: if_splits)

text \<open>
  C1, as the code has it: whenever the store answers, the user's difficulty is a known level
  and at least one word is eligible (a common word passing the level's filter, or an active
  word of the user), \<open>start_quiz\<close> sends a question. Its options are the correct translation
  and the wrong answers in some order; the correct translation occurs exactly once; there are
  at most three wrong answers, each different from the correct translation and each the
  translation of a common word or of an active word of the user. The options are free of
  duplicates when no two rows of the wrong-answer query carry the same translation.
\<close>

theorem start_quiz_options:
  assumes "connect_ok e" and "execute_ok e"
    and "d = difficulty_or_default (select_difficulty db (from_user_id msg))"
    and "words_limit d = Some limit"
    and "filter (common_eligible d) (common_words db) \<noteq> [] \<or>
         active_user_words db (from_user_id msg) \<noteq> []"
  shows "\<exists>en options correct src wid.
           start_quiz e rnd db msg =
             \<lparr>sent = [(QuizQuestion d en, OptionsKeyboard options)], db_after = db,
              next_handler = Some (CheckQuizAnswer correct src wid), raised = None\<rparr> \<and>
           count_list options correct = 1 \<and>
           mset options =
             add_mset correct (mset (select_wrong_answers rnd db (from_user_id msg) correct)) \<and>
           length (select_wrong_answers rnd db (from_user_id msg) correct) \<le> 3 \<and>
           (\<forall>t\<in>set (select_wrong_answers rnd db (from_user_id msg) correct).
              t \<noteq> correct \<and>
              ((\<exists>w\<in>set (common_words db). cw_russian_translation w = t) \<or>
               (\<exists>w\<in>set (active_user_words db (from_user_id msg)).
                  uw_russian_translation w = t))) \<and>
           (distinct (wrong_option_pool db (from_user_id msg) correct) \<longrightarrow> distinct options)"
proof -
  let ?uid = "from_user_id msg"
  from words_limit_pos[OF assms(4)] have "0 < limit" .
  from select_question_word_Some[OF this assms(5)]
  obtain row where row: "select_question_word rnd db ?uid d limit = Some row" by blast
  obtain src wid en correct where r: "row = (src, wid, en, correct)"
    by (cases row) auto
  let ?wrong = "select_wrong_answers rnd db ?uid correct"
  let ?options = "order_by_random (r_shuffle rnd) (correct # ?wrong)"
  have sq: "start_quiz e rnd db msg =
          \<lparr>sent = [(QuizQuestion d en, OptionsKeyboard ?options)], db_after = db,
           next_handler = Some (CheckQuizAnswer correct src wid), raised = None\<rparr>"
    using assms(1,2,4) row r unfolding assms(3)
    by (simp add: start_quiz_def Let_def)
  have notin: "correct \<notin> set ?wrong"
    using select_wrong_answers_props(2,3) by blast
  have cnt: "count_list ?options correct = 1"
    using notin by (simp add: count_order_by_random)
  have ms: "mset ?options = add_mset correct (mset ?wrong)"
    by (simp add: mset_order_by_random)
  have len: "length ?wrong \<le> 3" by (rule select_wrong_answers_props(1))
  have each: "\<forall>t\<in>set ?wrong. t \<noteq> correct \<and>
              ((\<exists>w\<in>set (common_words db). cw_russian_translation w = t) \<or>
               (\<exists>w\<in>set (active_user_words db ?uid). uw_russian_translation w = t))"
  proof
    fix t assume t: "t \<in> set ?wrong"
    then have "t \<in> set (wrong_option_pool db ?uid correct)"
      using select_wrong_answers_props(2) by blast
    from wrong_option_pool_rows[OF this] t notin
    show "t \<noteq> correct \<and>
              ((\<exists>w\<in>set (common_words db). cw_russian_translation w = t) \<or>
               (\<exists>w\<in>set (active_user_words db ?uid). uw_russian_translation w = t))"
      by blast
  qed
  have dist: "distinct (wrong_option_pool db ?uid correct) \<longrightarrow> distinct ?options"
    using notin by (simp add: distinct_order_by_random select_wrong_answers_props(4))
  show ?thesis
    using sq cnt ms len each dist by blast
qed

text \<open>The hypotheses of C1 hold, and the theorem applies, for a user with one word of their own.\<close>

theorem start_quiz_options_witness:
  "connect_ok up_env \<and> execute_ok up_env \<and>
   ascii ''medium'' = difficulty_or_default (select_difficulty dup_db (from_user_id quiz_msg)) \<and>
   words_limit (ascii ''medium'') = Some 20 \<and>
   active_user_words dup_db (from_user_id quiz_msg) \<noteq> [] \<and>
   (\<exists>en options correct src wid.
      start_quiz up_env no_rand dup_db quiz_msg =
        \<lparr>sent = [(QuizQuestion (ascii ''medium'') en, OptionsKeyboard options)],
         db_after = dup_db,
         next_handler = Some (CheckQuizAnswer correct src wid), raised = None\<rparr> \<and>
      count_list options correct = 1 \<and>
      mset options =
        add_mset correct (mset (select_wrong_answers no_rand dup_db (from_user_id quiz_msg) correct)) \<and>
      length (select_wrong_answers no_rand dup_db (from_user_id quiz_msg) correct) \<le> 3 \<and>
      (\<forall>t\<in>set (select_wrong_answers no_rand dup_db (from_user_id quiz_msg) correct).
         t \<noteq> correct \<and>
         ((\<exists>w\<in>set (common_words dup_db). cw_russian_translation w = t) \<or>
          (\<exists>w\<in>set (active_user_words dup_db (from_user_id quiz_msg)).
             uw_russian_translation w = t))) \<and>
      (distinct (wrong_option_pool dup_db (from_user_id quiz_msg) correct) \<longrightarrow>
         distinct options))"
proof -
  have h1: "connect_ok up_env" and h2: "execute_ok up_env"
    by (simp_all add: up_env_def)
  have h3: "ascii ''medium'' =
              difficulty_or_default (select_difficulty dup_db (from_user_id quiz_msg))"
    by (simp add: difficulty_or_default_def select_difficulty_def dup_db_def quiz_msg_def
        ascii_def)
  have h4: "words_limit (ascii ''medium'') = Some 20"
    by (simp add: words_limit_def ascii_def)
  have h5: "filter (common_eligible (ascii ''medium'')) (common_words dup_db) \<noteq> [] \<or>
            active_user_words dup_db (from_user_id quiz_msg) \<noteq> []"
    by (simp add: active_user_words_def dup_db_def quiz_msg_def)
  have h6: "active_user_words dup_db (from_user_id quiz_msg) \<noteq> []"
    by (simp add: active_user_words_def dup_db_def quiz_msg_def)
  show ?thesis
    using h1 h2 h3 h4 h6 start_quiz_options[OF h1 h2 h3 h4 h5, of no_rand] by blast
qed

text \<open>
  C1 as stated fails on the duplicates: \<^verbatim>\<open>UNION ALL\<close> keeps both rows when a common word and
  a word of the user have the same translation. Here the user has added a second word for
  the translation of "blue"; the question is "red" and both rows come back as wrong answers.
\<close>

theorem start_quiz_duplicate_options:
  "sent (start_quiz up_env no_rand dup_db quiz_msg) =
     [(QuizQuestion (ascii ''medium'') (ascii ''red''),
       OptionsKeyboard [tr_red, tr_blue, tr_blue])] \<and>
   \<not> distinct [tr_red, tr_blue, tr_blue]"
  by (simp add: dup_eval)

section \<open>The category filter of the question word\<close>

lemma common_eligible_easy:
  "common_eligible (ascii ''easy'') w \<longleftrightarrow>
     cw_word_type w \<in> {Some type_colour, Some type_pronoun, Some type_number}"
  by (auto simp: common_eligible_def split: option.splits)

lemma common_eligible_medium:
  "common_eligible (ascii ''medium'') w \<longleftrightarrow> cw_word_type w \<noteq> Some type_difficult"
  by (auto simp: common_eligible_def ascii_def split: option.splits)

lemma common_eligible_hard: "common_eligible (ascii ''hard'') w"
  by (simp add: common_eligible_def ascii_def)

lemma difficult_not_easy:
  "Some type_difficult \<notin> {Some type_colour, Some type_pronoun, Some type_number}"
  by (simp add: type_difficult_def type_colour_def type_pronoun_def type_number_def)

lemma candidates_length:
  "length (common_candidates rnd db d limit) \<le> limit"
  "length (user_candidates rnd db uid limit) \<le> limit"
  by (simp_all add: common_candidates_def user_candidates_def)

lemma start_quiz_sent_question:
  assumes "sent (start_quiz e rnd db msg) = [(QuizQuestion d en, OptionsKeyboard options)]"
  shows "\<exists>limit src wid correct.
           words_limit d = Some limit \<and>
           select_question_word rnd db (from_user_id msg) d limit = Some (src, wid, en, correct) \<and>
           next_handler (start_quiz e rnd db msg) = Some (CheckQuizAnswer correct src wid)"
  using assms
  by (auto simp: start_quiz_def respond_def Let_def split: if_splits option.splits prod.splits)

lemma start_quiz_common_word:
  assumes "sent (start_quiz e rnd db msg) = [(QuizQuestion d en, OptionsKeyboard options)]"
      and "next_handler (start_quiz e rnd db msg) = Some (CheckQuizAnswer correct common wid)"
  shows "\<exists>w\<in>set (common_words db).
           common_eligible d w \<and> cw_word_id w = wid \<and> cw_english_word w = en \<and>
           cw_russian_translation w = correct"
proof -
  from start_quiz_question[OF assms]
  obtain limit where
    "select_question_word rnd db (from_user_id msg) d limit = Some (common, wid, en, correct)"
    by blast
  from select_question_word_sound[OF this] show ?thesis
    by (auto simp: common_row_def user_row_of_def)
qed

lemma start_quiz_hard_any_word:
  assumes "connect_ok e" and "execute_ok e"
      and "difficulty_or_default (select_difficulty db (from_user_id msg)) = ascii ''hard''"
      and "w \<in> set (common_words db)"
  shows "\<exists>rnd options.
           start_quiz e rnd db msg =
             \<lparr>sent = [(QuizQuestion (ascii ''hard'') (cw_english_word w), OptionsKeyboard options)],
              db_after = db,
              next_handler =
                Some (CheckQuizAnswer (cw_russian_translation w) common (cw_word_id w)),
              raised = None\<rparr>"
proof -
  from assms(4) obtain i where i: "i < length (common_words db)" "common_words db ! i = w"
    by (auto simp: in_set_conv_nth)
  define rnd where
    "rnd = \<lparr>r_common = [i], r_user = [], r_combined = [0], r_wrong = [], r_shuffle = []\<rparr>"
  have all: "filter (common_eligible (ascii ''hard'')) (common_words db) = common_words db"
    by (simp add: common_eligible_hard)
  from order_by_random_first[OF i(1)] i(2)
  obtain ys where ys: "order_by_random [i] (common_words db) = w # ys" by auto
  have cands: "common_candidates rnd db (ascii ''hard'') 50 = w # take 49 ys"
    by (simp add: common_candidates_def all rnd_def ys)
  have q: "select_question_word rnd db (from_user_id msg) (ascii ''hard'') 50 =
             Some (common_row w)"
  proof -
    have rc: "r_combined rnd = [0]" by (simp add: rnd_def)
    show ?thesis
      unfolding select_question_word_def cands rc by (simp add: Let_def)
  qed
  have lmt: "words_limit (ascii ''hard'') = Some 50"
    by (simp add: words_limit_def ascii_def)
  have "start_quiz e rnd db msg =
          \<lparr>sent = [(QuizQuestion (ascii ''hard'') (cw_english_word w),
                    OptionsKeyboard
                      (order_by_random (r_shuffle rnd)
                         (cw_russian_translation w #
                          select_wrong_answers rnd db (from_user_id msg)
                            (cw_russian_translation w))))],
           db_after = db,
           next_handler =
             Some (CheckQuizAnswer (cw_russian_translation w) common (cw_word_id w)),
           raised = None\<rparr>"
    using assms(1,2) by (simp add: start_quiz_def assms(3) lmt q common_row_def Let_def)
  then show ?thesis by blast
qed

lemma words_limit_levels:
  assumes "words_limit d = Some lmt"
  shows "d = ascii ''easy'' \<and> lmt = 10 \<or> d = ascii ''medium'' \<and> lmt = 20 \<or>
         d = ascii ''hard'' \<and> lmt = 50"
  using assms by (auto simp: words_limit_def split: if_splits)

lemma select_question_word_candidate:
  assumes "select_question_word rnd db uid d limit = Some row"
  shows "row \<in> set (map common_row (common_candidates rnd db d limit) @
                     map user_row_of (user_candidates rnd db uid limit))"
proof -
  let ?all = "map common_row (common_candidates rnd db d limit) @
              map user_row_of (user_candidates rnd db uid limit)"
  from assms have "row \<in> set (take 1 (order_by_random (r_combined rnd) ?all))"
    by (auto simp: select_question_word_def split: list.splits)
  then have "row \<in> set (order_by_random (r_combined rnd) ?all)"
    by (rule in_set_takeD)
  then show ?thesis
    by (simp only: set_order_by_random)
qed

lemma start_quiz_limit:
  assumes "sent (start_quiz e rnd db msg) = [(QuizQuestion d en, OptionsKeyboard options)]"
      and "next_handler (start_quiz e rnd db msg) = Some (CheckQuizAnswer correct src wid)"
  shows "d = difficulty_or_default (select_difficulty db (from_user_id msg)) \<and>
         (\<exists>lmt. words_limit d = Some lmt \<and>
            (d = ascii ''easy'' \<and> lmt = 10 \<or> d = ascii ''medium'' \<and> lmt = 20 \<or>
             d = ascii ''hard'' \<and> lmt = 50) \<and>
            select_question_word rnd db (from_user_id msg) d lmt = Some (src, wid, en, correct) \<and>
            (src, wid, en, correct) \<in>
              set (map common_row (common_candidates rnd db d lmt) @
                   map user_row_of (user_candidates rnd db (from_user_id msg) lmt)) \<and>
            length (common_candidates rnd db d lmt) \<le> lmt \<and>
            length (user_candidates rnd db (from_user_id msg) lmt) \<le> lmt)"
proof -
  from start_quiz_question[OF assms]
  obtain lmt where d: "d = difficulty_or_default (select_difficulty db (from_user_id msg))"
    and l: "words_limit d = Some lmt"
    and q: "select_question_word rnd db (from_user_id msg) d lmt = Some (src, wid, en, correct)"
    by blast
  from words_limit_levels[OF l] select_question_word_candidate[OF q] l q d
    candidates_length(1)[of rnd db d lmt] candidates_length(2)[of rnd db "from_user_id msg" lmt]
  show ?thesis by blast
qed

text \<open>
  C2: the limits of the three levels are 10, 20 and 50, and each pool contributes at most
  that many candidates. Whenever \<open>start_quiz\<close> asks a question, the level shown is the
  user's level (medium by default), the limit used is the one of that level, and the
  question word is the row drawn from the candidates of the two pools, each cut at that
  limit. When the question word comes from the common pool, it is a row of
  \<^verbatim>\<open>common_words\<close> whose category is colour, pronoun or number on level easy (so never
  "difficult"), and is not "difficult" on level medium. On level hard nothing is filtered:
  every common word is the question word for some outcome of the random choices.
\<close>

theorem start_quiz_category_filter:
  "words_limit (ascii ''easy'') = Some 10 \<and>
   words_limit (ascii ''medium'') = Some 20 \<and>
   words_limit (ascii ''hard'') = Some 50 \<and>
   length (common_candidates rnd db d limit) \<le> limit \<and>
   length (user_candidates rnd db uid limit) \<le> limit \<and>
   (sent (start_quiz e rnd db msg) = [(QuizQuestion d' en, OptionsKeyboard options)] \<and>
    next_handler (start_quiz e rnd db msg) = Some (CheckQuizAnswer correct src wid') \<longrightarrow>
      d' = difficulty_or_default (select_difficulty db (from_user_id msg)) \<and>
      (\<exists>lmt. words_limit d' = Some lmt \<and>
         (d' = ascii ''easy'' \<and> lmt = 10 \<or> d' = ascii ''medium'' \<and> lmt = 20 \<or>
          d' = ascii ''hard'' \<and> lmt = 50) \<and>
         select_question_word rnd db (from_user_id msg) d' lmt =
           Some (src, wid', en, correct) \<and>
         (src, wid', en, correct) \<in>
           set (map common_row (common_candidates rnd db d' lmt) @
                map user_row_of (user_candidates rnd db (from_user_id msg) lmt)) \<and>
         length (common_candidates rnd db d' lmt) \<le> lmt \<and>
         length (user_candidates rnd db (from_user_id msg) lmt) \<le> lmt)) \<and>
   (sent (start_quiz e rnd db msg) = [(QuizQuestion d' en, OptionsKeyboard options)] \<and>
    next_handler (start_quiz e rnd db msg) = Some (CheckQuizAnswer correct common wid) \<longrightarrow>
      (\<exists>w\<in>set (common_words db).
         cw_word_id w = wid \<and> cw_english_word w = en \<and> cw_russian_translation w = correct \<and>
         (d' = ascii ''easy'' \<longrightarrow>
            cw_word_type w \<in> {Some type_colour, Some type_pronoun, Some type_number} \<and>
            cw_word_type w \<noteq> Some type_difficult) \<and>
         (d' = ascii ''medium'' \<longrightarrow> cw_word_type w \<noteq> Some type_difficult))) \<and>
   (connect_ok e \<and> execute_ok e \<and>
    difficulty_or_default (select_difficulty db (from_user_id msg)) = ascii ''hard'' \<longrightarrow>
      (\<forall>w\<in>set (common_words db).
         \<exists>rnd' options'.
           start_quiz e rnd' db msg =
             \<lparr>sent = [(QuizQuestion (ascii ''hard'') (cw_english_word w),
                       OptionsKeyboard options')],
              db_after = db,
              next_handler =
                Some (CheckQuizAnswer (cw_russian_translation w) common (cw_word_id w)),
              raised = None\<rparr>))"
proof -
  have l1: "words_limit (ascii ''easy'') = Some 10"
    and l2: "words_limit (ascii ''medium'') = Some 20"
    and l3: "words_limit (ascii ''hard'') = Some 50"
    by (simp_all add: words_limit_def ascii_def)
  have filtered:
    "\<exists>w\<in>set (common_words db).
         cw_word_id w = wid \<and> cw_english_word w = en \<and> cw_russian_translation w = correct \<and>
         (d' = ascii ''easy'' \<longrightarrow>
            cw_word_type w \<in> {Some type_colour, Some type_pronoun, Some type_number} \<and>
            cw_word_type w \<noteq> Some type_difficult) \<and>
         (d' = ascii ''medium'' \<longrightarrow> cw_word_type w \<noteq> Some type_difficult)"
    if "sent (start_quiz e rnd db msg) = [(QuizQuestion d' en, OptionsKeyboard options)]"
      and "next_handler (start_quiz e rnd db msg) = Some (CheckQuizAnswer correct common wid)"
  proof -
    from start_quiz_common_word[OF that]
    obtain w where w: "w \<in> set (common_words db)" "common_eligible d' w" "cw_word_id w = wid"
      "cw_english_word w = en" "cw_russian_translation w = correct"
      by blast
    have "cw_word_type w \<in> {Some type_colour, Some type_pronoun, Some type_number} \<and>
          cw_word_type w \<noteq> Some type_difficult" if "d' = ascii ''easy''"
      using w(2) that difficult_not_easy by (auto simp: common_eligible_easy)
    moreover have "cw_word_type w \<noteq> Some type_difficult" if "d' = ascii ''medium''"
      using w(2) that by (simp add: common_eligible_medium)
    ultimately show ?thesis using w by blast
  qed
  have used: "sent (start_quiz e rnd db msg) =
        [(QuizQuestion d' en, OptionsKeyboard options)] \<and>
      next_handler (start_quiz e rnd db msg) = Some (CheckQuizAnswer correct src wid') \<longrightarrow>
      d' = difficulty_or_default (select_difficulty db (from_user_id msg)) \<and>
      (\<exists>lmt. words_limit d' = Some lmt \<and>
         (d' = ascii ''easy'' \<and> lmt = 10 \<or> d' = ascii ''medium'' \<and> lmt = 20 \<or>
          d' = ascii ''hard'' \<and> lmt = 50) \<and>
         select_question_word rnd db (from_user_id msg) d' lmt =
           Some (src, wid', en, correct) \<and>
         (src, wid', en, correct) \<in>
           set (map common_row (common_candidates rnd db d' lmt) @
                map user_row_of (user_candidates rnd db (from_user_id msg) lmt)) \<and>
         length (common_candidates rnd db d' lmt) \<le> lmt \<and>
         length (user_candidates rnd db (from_user_id msg) lmt) \<le> lmt)"
    using start_quiz_limit[of e rnd db msg d' en options correct src wid'] by blast
  have hard: "connect_ok e \<and> execute_ok e \<and>
      difficulty_or_default (select_difficulty db (from_user_id msg)) = ascii ''hard'' \<longrightarrow>
      (\<forall>w\<in>set (common_words db).
         \<exists>rnd' options'.
           start_quiz e rnd' db msg =
             \<lparr>sent = [(QuizQuestion (ascii ''hard'') (cw_english_word w),
                       OptionsKeyboard options')],
              db_after = db,
              next_handler =
                Some (CheckQuizAnswer (cw_russian_translation w) common (cw_word_id w)),
              raised = None\<rparr>)"
    using start_quiz_hard_any_word[of e db msg] by blast
  have n1: "length (common_candidates rnd db d limit) \<le> limit"
    and n2: "length (user_candidates rnd db uid limit) \<le> limit"
    by (simp_all add: candidates_length)
  have filtered': "sent (start_quiz e rnd db msg) =
        [(QuizQuestion d' en, OptionsKeyboard options)] \<and>
      next_handler (start_quiz e rnd db msg) = Some (CheckQuizAnswer correct common wid) \<longrightarrow>
      (\<exists>w\<in>set (common_words db).
         cw_word_id w = wid \<and> cw_english_word w = en \<and> cw_russian_translation w = correct \<and>
         (d' = ascii ''easy'' \<longrightarrow>
            cw_word_type w \<in> {Some type_colour, Some type_pronoun, Some type_number} \<and>
            cw_word_type w \<noteq> Some type_difficult) \<and>
         (d' = ascii ''medium'' \<longrightarrow> cw_word_type w \<noteq> Some type_difficult))"
    using filtered by blast
  show ?thesis
    by (intro conjI) (fact l1, fact l2, fact l3, fact n1, fact n2, fact used, fact filtered',
        fact hard)
qed

text \<open>
  C2 at the scenario of the specification: the common words are "red" (colour), "one"
  (number) and "abundance" (difficult), the user is on level easy and has no words. With the
  rows taken in table order the question is "red", a colour, drawn with the limit 10 of
  level easy.
\<close>

theorem start_quiz_category_filter_witness:
  "sent (start_quiz up_env no_rand scenario_db quiz_msg) =
     [(QuizQuestion (ascii ''easy'') (ascii ''red''), OptionsKeyboard [tr_red, tr_one, tr_abundance])] \<and>
   next_handler (start_quiz up_env no_rand scenario_db quiz_msg) =
     Some (CheckQuizAnswer tr_red common 1) \<and>
   (\<exists>w\<in>set (common_words scenario_db).
      cw_word_id w = 1 \<and> cw_english_word w = ascii ''red'' \<and> cw_russian_translation w = tr_red \<and>
      cw_word_type w \<in> {Some type_colour, Some type_pronoun, Some type_number} \<and>
      cw_word_type w \<noteq> Some type_difficult) \<and>
   select_question_word no_rand scenario_db (from_user_id quiz_msg) (ascii ''easy'') 10 =
     Some (common, 1, ascii ''red'', tr_red)"
proof -
  have ev: "start_quiz up_env no_rand scenario_db quiz_msg =
     \<lparr>sent = [(QuizQuestion (ascii ''easy'') (ascii ''red''),
               OptionsKeyboard [tr_red, tr_one, tr_abundance])],
      db_after = scenario_db,
      next_handler = Some (CheckQuizAnswer tr_red common 1),
      raised = None\<rparr>"
    by (simp add: start_quiz_def up_env_def no_rand_def scenario_db_def quiz_msg_def
      select_difficulty_def difficulty_or_default_def words_limit_def select_question_word_def
      common_candidates_def user_candidates_def common_eligible_def active_user_words_def
      common_row_def user_row_of_def select_wrong_answers_def wrong_option_pool_def text_defs
      Let_def)
  have s: "sent (start_quiz up_env no_rand scenario_db quiz_msg) =
     [(QuizQuestion (ascii ''easy'') (ascii ''red''), OptionsKeyboard [tr_red, tr_one, tr_abundance])]"
    and n: "next_handler (start_quiz up_env no_rand scenario_db quiz_msg) =
     Some (CheckQuizAnswer tr_red common 1)"
    by (simp_all add: ev)
  show ?thesis
    using s n
      start_quiz_category_filter[where rnd = no_rand and db = scenario_db
        and d = "ascii ''easy''" and limit = 10 and uid = 1 and e = up_env and msg = quiz_msg
        and d' = "ascii ''easy''" and en = "ascii ''red''"
        and options = "[tr_red, tr_one, tr_abundance]" and correct = tr_red and wid = 1
        and src = common and wid' = 1]
    by auto
qed

text \<open>
  The same scenario for every outcome of the random choices: "abundance" is never asked.
\<close>

lemma scenario_never_abundance:
  assumes "sent (start_quiz e rnd scenario_db quiz_msg) =
             [(QuizQuestion d en, OptionsKeyboard options)]"
  shows "en \<noteq> ascii ''abundance''"
proof -
  from start_quiz_sent_question[OF assms]
  obtain limit src wid correct where
    q: "select_question_word rnd scenario_db (from_user_id quiz_msg) d limit =
          Some (src, wid, en, correct)"
    and n: "next_handler (start_quiz e rnd scenario_db quiz_msg) =
          Some (CheckQuizAnswer correct src wid)"
    by blast
  from start_quiz_question[OF assms n]
  have d: "d = ascii ''easy''"
    by (simp add: scenario_db_def quiz_msg_def select_difficulty_def difficulty_or_default_def
        ascii_def)
  have no_user: "active_user_words scenario_db (from_user_id quiz_msg) = []"
    by (simp add: active_user_words_def scenario_db_def)
  from select_question_word_sound[OF q] no_user
  obtain w where w: "w \<in> set (common_words scenario_db)" "common_eligible (ascii ''easy'') w"
    "en = cw_english_word w"
    unfolding d by (auto simp: common_row_def)
  from w(1,2) have "cw_english_word w = ascii ''red'' \<or> cw_english_word w = ascii ''one''"
    unfolding common_eligible_easy
    by (auto simp: scenario_db_def type_difficult_def type_colour_def type_pronoun_def
        type_number_def)
  then show ?thesis using w(3) by (auto simp: ascii_def)
qed

section \<open>Properties of answering\<close>

lemma check_quiz_answer_feedback:
  assumes "msg_text msg \<noteq> Some main_menu_text"
  shows "sent (check_quiz_answer e db msg correct_answer src wid) =
           [(if msg_text msg = Some correct_answer then AnswerCorrect else AnswerIncorrect,
             NextQuestionKeyboard)]"
    and "raised (check_quiz_answer e db msg correct_answer src wid) = None"
    and "next_handler (check_quiz_answer e db msg correct_answer src wid) = None"
  using assms by (simp_all add: check_quiz_answer_def respond_def Let_def)

lemma check_quiz_answer_db:
  assumes "msg_text msg \<noteq> Some main_menu_text"
  shows "db_after (check_quiz_answer e db msg correct_answer src wid) =
           (if connect_ok e
            then (case insert_user_stat e db (from_user_id msg)
                         (if src = common then wid else - wid)
                         (msg_text msg = Some correct_answer) of
                    Inl err \<Rightarrow> db
                  | Inr db2 \<Rightarrow> db2)
            else db)"
  using assms by (simp add: check_quiz_answer_def respond_def Let_def)

text \<open>
  C3, as the code has it. For a reply that is an answer (not the main-menu text) the
  feedback is "correct" exactly when the reply equals the stored translation code point for
  code point. When the write goes through (a connection, the statement executes, the user
  has a row in \<open>users\<close>), exactly one row is appended to the answer history: for this user,
  with \<open>word_id\<close> for a common word and \<open>- word_id\<close> for a word of the user, and with the
  same verdict; nothing else in the store changes. When the write does not go through,
  nothing is appended and the store is as it was.
\<close>

theorem check_quiz_answer_records:
  assumes "msg_text msg \<noteq> Some main_menu_text"
  shows "(sent (check_quiz_answer e db msg correct_answer src wid) =
            [(AnswerCorrect, NextQuestionKeyboard)] \<longleftrightarrow> msg_text msg = Some correct_answer) \<and>
         (sent (check_quiz_answer e db msg correct_answer src wid) =
            [(AnswerIncorrect, NextQuestionKeyboard)] \<longleftrightarrow> msg_text msg \<noteq> Some correct_answer) \<and>
         (connect_ok e \<and> execute_ok e \<and> user_exists db (from_user_id msg) \<longrightarrow>
            user_stats (db_after (check_quiz_answer e db msg correct_answer src wid)) =
              user_stats db @
              [\<lparr>st_stat_id = stat_seq db, st_user_id = from_user_id msg,
                st_word_id = (case src of common \<Rightarrow> wid | user \<Rightarrow> - wid),
                st_is_correct = (msg_text msg = Some correct_answer)\<rparr>] \<and>
            users (db_after (check_quiz_answer e db msg correct_answer src wid)) = users db \<and>
            common_words (db_after (check_quiz_answer e db msg correct_answer src wid)) =
              common_words db \<and>
            user_words (db_after (check_quiz_answer e db msg correct_answer src wid)) =
              user_words db) \<and>
         (\<not> (connect_ok e \<and> execute_ok e \<and> user_exists db (from_user_id msg)) \<longrightarrow>
            db_after (check_quiz_answer e db msg correct_answer src wid) = db)"
proof -
  have fb: "sent (check_quiz_answer e db msg correct_answer src wid) =
           [(if msg_text msg = Some correct_answer then AnswerCorrect else AnswerIncorrect,
             NextQuestionKeyboard)]"
    by (rule check_quiz_answer_feedback(1)[OF assms])
  have sgn: "(if src = common then wid else - wid) =
               (case src of common \<Rightarrow> wid | user \<Rightarrow> - wid)"
    by (cases src) simp_all
  have ok: "db_after (check_quiz_answer e db msg correct_answer src wid) =
          db\<lparr>user_stats := user_stats db @
                [\<lparr>st_stat_id = stat_seq db, st_user_id = from_user_id msg,
                  st_word_id = (case src of common \<Rightarrow> wid | user \<Rightarrow> - wid),
                  st_is_correct = (msg_text msg = Some correct_answer)\<rparr>],
              stat_seq := stat_seq db + 1\<rparr>"
    if "connect_ok e \<and> execute_ok e \<and> user_exists db (from_user_id msg)"
    using that assms sgn by (simp add: check_quiz_answer_db insert_user_stat_def)
  have no: "db_after (check_quiz_answer e db msg correct_answer src wid) = db"
    if "\<not> (connect_ok e \<and> execute_ok e \<and> user_exists db (from_user_id msg))"
    using that assms by (auto simp: check_quiz_answer_db insert_user_stat_def)
  show ?thesis
    using fb ok no by simp
qed

text \<open>
  C3 on two answers of the registered user 1: the exact translation of "red" for a word of
  the user's own with key 7 is correct and stored under \<open>-7\<close>; the same word with a capital
  first letter, for the common word 1, is incorrect and stored under \<open>1\<close>.
\<close>

theorem check_quiz_answer_records_witness:
  "sent (check_quiz_answer up_env scenario_db \<lparr>from_user_id = 1, msg_text = Some tr_red\<rparr>
           tr_red user 7) = [(AnswerCorrect, NextQuestionKeyboard)] \<and>
   user_stats (db_after (check_quiz_answer up_env scenario_db
           \<lparr>from_user_id = 1, msg_text = Some tr_red\<rparr> tr_red user 7)) =
     [\<lparr>st_stat_id = 1, st_user_id = 1, st_word_id = - 7, st_is_correct = True\<rparr>] \<and>
   sent (check_quiz_answer up_env scenario_db
           \<lparr>from_user_id = 1, msg_text = Some (1050 # tl tr_red)\<rparr> tr_red common 1) =
     [(AnswerIncorrect, NextQuestionKeyboard)] \<and>
   user_stats (db_after (check_quiz_answer up_env scenario_db
           \<lparr>from_user_id = 1, msg_text = Some (1050 # tl tr_red)\<rparr> tr_red common 1)) =
     [\<lparr>st_stat_id = 1, st_user_id = 1, st_word_id = 1, st_is_correct = False\<rparr>]"
proof -
  have c: "connect_ok up_env \<and> execute_ok up_env \<and>
           user_exists scenario_db (from_user_id \<lparr>from_user_id = 1, msg_text = t\<rparr>)" for t
    by (simp add: up_env_def user_exists_def scenario_db_def)
  have m1: "msg_text \<lparr>from_user_id = 1, msg_text = Some tr_red\<rparr> \<noteq> Some main_menu_text"
    by (simp add: tr_red_def main_menu_text_def)
  have m2: "msg_text \<lparr>from_user_id = 1, msg_text = Some (1050 # tl tr_red)\<rparr> \<noteq>
              Some main_menu_text"
    by (simp add: tr_red_def main_menu_text_def)
  have ne: "1050 # tl tr_red \<noteq> tr_red"
    by (simp add: tr_red_def)
  show ?thesis
    using check_quiz_answer_records[OF m1, of up_env scenario_db tr_red user 7]
      check_quiz_answer_records[OF m2, of up_env scenario_db tr_red common 1] ne c
    by (simp add: scenario_db_def)
qed

text \<open>
  C3 as stated fails for an answer whose write is refused. User 2 has no row in \<open>users\<close>;
  \<open>start_quiz\<close> still asks a question, on the default level, and the right answer gets its
  feedback, but the foreign key rejects the history row, the exception is swallowed, and no
  event is appended.
\<close>

theorem check_quiz_answer_unregistered:
  "next_handler (start_quiz up_env no_rand scenario_db
      \<lparr>from_user_id = 2, msg_text = Some (ascii ''/quiz'')\<rparr>) =
     Some (CheckQuizAnswer tr_red common 1) \<and>
   sent (check_quiz_answer up_env scenario_db \<lparr>from_user_id = 2, msg_text = Some tr_red\<rparr>
           tr_red common 1) = [(AnswerCorrect, NextQuestionKeyboard)] \<and>
   user_stats (db_after (check_quiz_answer up_env scenario_db
           \<lparr>from_user_id = 2, msg_text = Some tr_red\<rparr> tr_red common 1)) = []"
proof -
  have q: "next_handler (start_quiz up_env no_rand scenario_db
      \<lparr>from_user_id = 2, msg_text = Some (ascii ''/quiz'')\<rparr>) =
     Some (CheckQuizAnswer tr_red common 1)"
    by (simp add: start_quiz_def up_env_def no_rand_def scenario_db_def
      select_difficulty_def difficulty_or_default_def words_limit_def select_question_word_def
      common_candidates_def user_candidates_def common_eligible_def active_user_words_def
      common_row_def user_row_of_def select_wrong_answers_def wrong_option_pool_def text_defs
      Let_def)
  have m: "msg_text \<lparr>from_user_id = 2, msg_text = Some tr_red\<rparr> \<noteq> Some main_menu_text"
    by (simp add: tr_red_def main_menu_text_def)
  have "sent (check_quiz_answer up_env scenario_db \<lparr>from_user_id = 2, msg_text = Some tr_red\<rparr>
           tr_red common 1) = [(AnswerCorrect, NextQuestionKeyboard)]"
    using check_quiz_answer_feedback(1)[OF m, of up_env scenario_db tr_red common 1] by simp
  moreover have "user_stats (db_after (check_quiz_answer up_env scenario_db
           \<lparr>from_user_id = 2, msg_text = Some tr_red\<rparr> tr_red common 1)) = []"
    using m by (simp add: check_quiz_answer_db insert_user_stat_def user_exists_def
        scenario_db_def up_env_def)
  ultimately show ?thesis using q by blast
qed

text \<open>
  C4: for a reply that is an answer (not the main-menu text) the handler sends exactly the
  feedback decided by the comparison and raises nothing, whatever the store does: with no
  connection, with a failing insert, with an unregistered user. When the insert fails, the
  store is left as it was.
\<close>

theorem check_quiz_answer_feedback_isolated:
  assumes "msg_text msg \<noteq> Some main_menu_text"
  shows "sent (check_quiz_answer e db msg correct_answer src wid) =
           [(if msg_text msg = Some correct_answer then AnswerCorrect else AnswerIncorrect,
             NextQuestionKeyboard)] \<and>
         raised (check_quiz_answer e db msg correct_answer src wid) = None \<and>
         (\<not> connect_ok e \<or> \<not> execute_ok e \<or> \<not> user_exists db (from_user_id msg) \<longrightarrow>
            db_after (check_quiz_answer e db msg correct_answer src wid) = db)"
  using assms check_quiz_answer_feedback(1,2)[OF assms, of e db correct_answer src wid]
  by (auto simp: check_quiz_answer_db insert_user_stat_def)

text \<open>
  C4 with a connection on which the insert raises: the correct answer still gets its
  feedback, and the history stays empty.
\<close>

theorem check_quiz_answer_feedback_isolated_witness:
  "sent (check_quiz_answer \<lparr>connect_ok = True, execute_ok = False\<rparr> scenario_db
           \<lparr>from_user_id = 1, msg_text = Some tr_red\<rparr> tr_red common 1) =
     [(AnswerCorrect, NextQuestionKeyboard)] \<and>
   raised (check_quiz_answer \<lparr>connect_ok = True, execute_ok = False\<rparr> scenario_db
           \<lparr>from_user_id = 1, msg_text = Some tr_red\<rparr> tr_red common 1) = None \<and>
   db_after (check_quiz_answer \<lparr>connect_ok = True, execute_ok = False\<rparr> scenario_db
           \<lparr>from_user_id = 1, msg_text = Some tr_red\<rparr> tr_red common 1) = scenario_db"
proof -
  have m: "msg_text \<lparr>from_user_id = 1, msg_text = Some tr_red\<rparr> \<noteq> Some main_menu_text"
    by (simp add: tr_red_def main_menu_text_def)
  show ?thesis
    using check_quiz_answer_feedback_isolated[OF m,
        of "\<lparr>connect_ok = True, execute_ok = False\<rparr>" scenario_db tr_red common 1]
    by simp
qed

text \<open>
  C10: a reply that is exactly the main-menu text ends the question: the only message is
  the menu prompt with the main keyboard, no feedback is sent, and the store, in particular
  the answer history, is what it was. This does not depend on the correct translation,
  so it also holds when the correct translation is that very text.
\<close>

theorem check_quiz_answer_main_menu:
  "check_quiz_answer e db \<lparr>from_user_id = uid, msg_text = Some main_menu_text\<rparr> correct_answer src wid
     = \<lparr>sent = [(ChooseAction, MainKeyboard)], db_after = db, next_handler = None, raised = None\<rparr>
   \<and> user_stats (db_after (check_quiz_answer e db
          \<lparr>from_user_id = uid, msg_text = Some main_menu_text\<rparr> main_menu_text src wid))
       = user_stats db"
  by (simp add: check_quiz_answer_def respond_def)


section \<open>Properties of adding a word\<close>

lemma py_lower_in_table:
  "list_all in_lower_table s \<Longrightarrow> py_lower e s = map lower_cp s"
  by (simp add: py_lower_def)

lemma process_new_word_invalid:
  assumes "msg_text msg = Some raw" and "\<not> spec_valid_format raw"
  shows "process_new_word e db msg = respond db InvalidFormat MainKeyboard"
  using assms
  by (auto simp: process_new_word_def parse_word_pair_spec spec_valid_format_def Let_def
      split: option.splits)

lemma process_new_word_valid:
  assumes "msg_text msg = Some raw" and "spec_segments raw = Some (en, ru)"
      and "en \<noteq> []" and "ru \<noteq> []"
  shows "process_new_word e db msg =
           (if \<not> connect_ok e then silent db
            else case insert_user_word e db (from_user_id msg) (py_lower e en) (py_lower e ru) of
                   Inl err \<Rightarrow> respond db AddWordError MainKeyboard
                 | Inr db1 \<Rightarrow>
                     respond db1 (WordAdded en (count_active_user_words db1 (from_user_id msg)))
                       MainKeyboard)"
  using assms by (simp add: process_new_word_def parse_word_pair_spec Let_def)

lemma count_active_after_insert:
  "count_active_user_words
     (db\<lparr>user_words := user_words db @
            [\<lparr>uw_user_word_id = k, uw_user_id = uid, uw_english_word = en,
              uw_russian_translation = ru, uw_is_active = True\<rparr>],
          user_word_seq := s\<rparr>) uid = count_active_user_words db uid + 1"
  by (simp add: count_active_user_words_def active_user_words_def)

lemma process_new_word_stored:
  assumes "msg_text msg = Some raw" and "spec_segments raw = Some (en, ru)"
      and "en \<noteq> []" and "ru \<noteq> []"
      and "connect_ok e" and "execute_ok e" and "user_exists db (from_user_id msg)"
      and "length (py_lower e en) \<le> 100" and "length (py_lower e ru) \<le> 100"
  shows "process_new_word e db msg =
           respond
             (db\<lparr>user_words := user_words db @
                    [\<lparr>uw_user_word_id = user_word_seq db, uw_user_id = from_user_id msg,
                      uw_english_word = py_lower e en, uw_russian_translation = py_lower e ru,
                      uw_is_active = True\<rparr>],
                  user_word_seq := user_word_seq db + 1\<rparr>)
             (WordAdded en (count_active_user_words db (from_user_id msg) + 1))
             MainKeyboard"
  using assms(5-9)
  by (simp add: process_new_word_valid[OF assms(1-4)] insert_user_word_def
      count_active_after_insert)

lemma process_new_word_refused:
  assumes "msg_text msg = Some raw" and "spec_segments raw = Some (en, ru)"
      and "en \<noteq> []" and "ru \<noteq> []"
      and "connect_ok e"
      and "\<not> (execute_ok e \<and> user_exists db (from_user_id msg) \<and>
               length (py_lower e en) \<le> 100 \<and> length (py_lower e ru) \<le> 100)"
  shows "process_new_word e db msg = respond db AddWordError MainKeyboard"
  using assms(5,6)
  by (auto simp: process_new_word_valid[OF assms(1-4)] insert_user_word_def)

lemma apple_segments:
  "spec_segments apple_input = Some (ascii ''Apple'', [1071, 1073, 1083, 1086, 1082, 1086])"
  by (simp add: spec_segments_def apple_input_def ascii_def py_strip_def py_isspace_def)

lemma apple_lower:
  "py_lower e (ascii ''Apple'') = ascii ''apple''"
  "py_lower e [1071, 1073, 1083, 1086, 1082, 1086] = tr_apple"
  by (simp_all add: py_lower_def in_lower_table_def lower_cp_def ascii_def tr_apple_def)

lemma apple_valid: "spec_valid_format apple_input"
  by (simp add: spec_valid_format_def apple_segments) (simp add: ascii_def)

text \<open>
  C6, as the code has it. For a text message the handler answers with the format message,
  and leaves the store alone, exactly when the input does not split at its first hyphen into
  two segments that are non-empty after trimming; in particular whenever there is no
  hyphen. For an input that does split, and with a connection: the word is added exactly
  when the statement executes, the user has a row in \<open>users\<close> and both lower-cased segments
  fit the 100 characters of their columns; the row stored then holds the two trimmed
  segments in lower case and the confirmation shows the word as typed; in every other case
  the answer is the add error and the store is unchanged. Inside the table, lower-casing is
  the table applied to each code point.
\<close>

theorem process_new_word_format:
  assumes "msg_text msg = Some raw"
  shows "(process_new_word e db msg = respond db InvalidFormat MainKeyboard \<longleftrightarrow>
            \<not> spec_valid_format raw) \<and>
         (45 \<notin> set raw \<longrightarrow> process_new_word e db msg = respond db InvalidFormat MainKeyboard) \<and>
         (\<forall>en ru. spec_segments raw = Some (en, ru) \<and> en \<noteq> [] \<and> ru \<noteq> [] \<and> connect_ok e \<longrightarrow>
            (if execute_ok e \<and> user_exists db (from_user_id msg) \<and>
                length (py_lower e en) \<le> 100 \<and> length (py_lower e ru) \<le> 100
             then process_new_word e db msg =
                    respond
                      (db\<lparr>user_words := user_words db @
                             [\<lparr>uw_user_word_id = user_word_seq db,
                               uw_user_id = from_user_id msg,
                               uw_english_word = py_lower e en,
                               uw_russian_translation = py_lower e ru,
                               uw_is_active = True\<rparr>],
                           user_word_seq := user_word_seq db + 1\<rparr>)
                      (WordAdded en (count_active_user_words db (from_user_id msg) + 1))
                      MainKeyboard
             else process_new_word e db msg = respond db AddWordError MainKeyboard)) \<and>
         (\<forall>s. list_all in_lower_table s \<longrightarrow> py_lower e s = map lower_cp s)"
proof (intro conjI impI allI)
  show "process_new_word e db msg = respond db InvalidFormat MainKeyboard \<longleftrightarrow>
          \<not> spec_valid_format raw"
  proof
    assume inv: "process_new_word e db msg = respond db InvalidFormat MainKeyboard"
    show "\<not> spec_valid_format raw"
    proof
      assume "spec_valid_format raw"
      then obtain en ru where s: "spec_segments raw = Some (en, ru)" "en \<noteq> []" "ru \<noteq> []"
        by (auto simp: spec_valid_format_def split: option.splits)
      from inv have "sent (process_new_word e db msg) = [(InvalidFormat, MainKeyboard)]"
        by (simp add: respond_def)
      then show False
        unfolding process_new_word_valid[OF assms s]
        by (auto simp: respond_def silent_def split: if_splits sum.splits)
    qed
  next
    assume "\<not> spec_valid_format raw"
    then show "process_new_word e db msg = respond db InvalidFormat MainKeyboard"
      by (rule process_new_word_invalid[OF assms])
  qed
next
  assume "45 \<notin> set raw"
  then have "\<not> spec_valid_format raw"
    by (simp add: spec_valid_format_def spec_segments_def)
  then show "process_new_word e db msg = respond db InvalidFormat MainKeyboard"
    by (rule process_new_word_invalid[OF assms])
next
  fix en ru
  assume a: "spec_segments raw = Some (en, ru) \<and> en \<noteq> [] \<and> ru \<noteq> [] \<and> connect_ok e"
  show "if execute_ok e \<and> user_exists db (from_user_id msg) \<and>
                length (py_lower e en) \<le> 100 \<and> length (py_lower e ru) \<le> 100
             then process_new_word e db msg =
                    respond
                      (db\<lparr>user_words := user_words db @
                             [\<lparr>uw_user_word_id = user_word_seq db,
                               uw_user_id = from_user_id msg,
                               uw_english_word = py_lower e en,
                               uw_russian_translation = py_lower e ru,
                               uw_is_active = True\<rparr>],
                           user_word_seq := user_word_seq db + 1\<rparr>)
                      (WordAdded en (count_active_user_words db (from_user_id msg) + 1))
                      MainKeyboard
             else process_new_word e db msg = respond db AddWordError MainKeyboard"
  proof (cases "execute_ok e \<and> user_exists db (from_user_id msg) \<and>
                length (py_lower e en) \<le> 100 \<and> length (py_lower e ru) \<le> 100")
    case True
    then show ?thesis
      using process_new_word_stored[of msg raw en ru e db] assms a by simp
  next
    case False
    from process_new_word_refused[of msg raw en ru e db, OF assms _ _ _ _ False] a
    have "process_new_word e db msg = respond db AddWordError MainKeyboard"
      by blast
    with False show ?thesis
      by (simp only: if_False)
  qed
next
  fix s
  assume "list_all in_lower_table s"
  then show "py_lower e s = map lower_cp s" by (rule py_lower_in_table)
qed

text \<open>
  C6 on the two inputs of the specification, for the registered user 1: \<^verbatim>\<open>justoneword\<close> is
  refused and nothing is stored; the capitalised pair for "apple" is stored in lower case as
  the third entry, and the confirmation shows the word as typed.
\<close>

theorem process_new_word_format_witness:
  "process_new_word up_env apple_db \<lparr>from_user_id = 1, msg_text = Some (ascii ''justoneword'')\<rparr> =
     respond apple_db InvalidFormat MainKeyboard \<and>
   process_new_word up_env apple_db \<lparr>from_user_id = 1, msg_text = Some apple_input\<rparr> =
     respond
       (apple_db\<lparr>user_words := user_words apple_db @
                    [\<lparr>uw_user_word_id = 3, uw_user_id = 1, uw_english_word = ascii ''apple'',
                      uw_russian_translation = tr_apple, uw_is_active = True\<rparr>],
                  user_word_seq := 4\<rparr>)
       (WordAdded (ascii ''Apple'') 2) MainKeyboard"
proof -
  let ?m2 = "\<lparr>from_user_id = 1, msg_text = Some apple_input\<rparr>"
  have m1: "msg_text \<lparr>from_user_id = 1, msg_text = Some (ascii ''justoneword'')\<rparr> =
              Some (ascii ''justoneword'')"
    and m2: "msg_text ?m2 = Some apple_input"
    by simp_all
  have nohyphen: "45 \<notin> set (ascii ''justoneword'')"
    by (simp add: ascii_def)
  have cnt: "count_active_user_words apple_db 1 = 1" and seq: "user_word_seq apple_db = 3"
    by (simp_all add: count_active_user_words_def active_user_words_def apple_db_def)
  have first: "process_new_word up_env apple_db
                 \<lparr>from_user_id = 1, msg_text = Some (ascii ''justoneword'')\<rparr> =
               respond apple_db InvalidFormat MainKeyboard"
    using process_new_word_format[OF m1, of up_env apple_db] nohyphen by blast
  have pre: "spec_segments apple_input =
               Some (ascii ''Apple'', [1071, 1073, 1083, 1086, 1082, 1086]) \<and>
        ascii ''Apple'' \<noteq> [] \<and> [1071, 1073, 1083, 1086, 1082, 1086] \<noteq> ([] :: nat list) \<and>
        connect_ok up_env"
    by (simp add: apple_segments up_env_def) (simp add: ascii_def)
  have cond: "execute_ok up_env \<and> user_exists apple_db (from_user_id ?m2) \<and>
              length (py_lower up_env (ascii ''Apple'')) \<le> 100 \<and>
              length (py_lower up_env [1071, 1073, 1083, 1086, 1082, 1086]) \<le> 100"
    by (simp add: apple_lower) (simp add: up_env_def user_exists_def apple_db_def ascii_def
        tr_apple_def)
  from process_new_word_format[OF m2, of up_env apple_db] pre
  have "if execute_ok up_env \<and> user_exists apple_db (from_user_id ?m2) \<and>
              length (py_lower up_env (ascii ''Apple'')) \<le> 100 \<and>
              length (py_lower up_env [1071, 1073, 1083, 1086, 1082, 1086]) \<le> 100
        then process_new_word up_env apple_db ?m2 =
          respond
            (apple_db\<lparr>user_words := user_words apple_db @
               [\<lparr>uw_user_word_id = user_word_seq apple_db,
                 uw_user_id = from_user_id ?m2,
                 uw_english_word = py_lower up_env (ascii ''Apple''),
                 uw_russian_translation = py_lower up_env [1071, 1073, 1083, 1086, 1082, 1086],
                 uw_is_active = True\<rparr>],
               user_word_seq := user_word_seq apple_db + 1\<rparr>)
            (WordAdded (ascii ''Apple'')
               (count_active_user_words apple_db (from_user_id ?m2) + 1))
            MainKeyboard
        else process_new_word up_env apple_db ?m2 = respond apple_db AddWordError MainKeyboard"
    by blast
  with cond have "process_new_word up_env apple_db ?m2 =
          respond
            (apple_db\<lparr>user_words := user_words apple_db @
               [\<lparr>uw_user_word_id = user_word_seq apple_db,
                 uw_user_id = from_user_id ?m2,
                 uw_english_word = py_lower up_env (ascii ''Apple''),
                 uw_russian_translation = py_lower up_env [1071, 1073, 1083, 1086, 1082, 1086],
                 uw_is_active = True\<rparr>],
               user_word_seq := user_word_seq apple_db + 1\<rparr>)
            (WordAdded (ascii ''Apple'')
               (count_active_user_words apple_db (from_user_id ?m2) + 1))
            MainKeyboard"
    by (simp only: if_True)
  then have second: "process_new_word up_env apple_db ?m2 =
     respond
       (apple_db\<lparr>user_words := user_words apple_db @
                    [\<lparr>uw_user_word_id = 3, uw_user_id = 1, uw_english_word = ascii ''apple'',
                      uw_russian_translation = tr_apple, uw_is_active = True\<rparr>],
                  user_word_seq := 4\<rparr>)
       (WordAdded (ascii ''Apple'') 2) MainKeyboard"
    by (simp add: apple_lower cnt seq numeral_2_eq_2)
  from first second show ?thesis by blast
qed

text \<open>
  C6 as stated fails for a well-formed input when the insert is refused: user 2 has no row
  in \<open>users\<close> (the user never sent \<^verbatim>\<open>/start\<close>), the foreign key rejects the new row, and the
  handler answers with the add error although the format is valid.
\<close>

theorem process_new_word_unregistered:
  "spec_valid_format apple_input \<and>
   process_new_word up_env apple_db \<lparr>from_user_id = 2, msg_text = Some apple_input\<rparr> =
     respond apple_db AddWordError MainKeyboard"
proof -
  have "process_new_word up_env apple_db \<lparr>from_user_id = 2, msg_text = Some apple_input\<rparr> =
          respond apple_db AddWordError MainKeyboard"
    using process_new_word_refused[of "\<lparr>from_user_id = 2, msg_text = Some apple_input\<rparr>"
        apple_input "ascii ''Apple''" "[1071, 1073, 1083, 1086, 1082, 1086]" up_env apple_db]
    by (simp add: apple_segments) (simp add: up_env_def user_exists_def apple_db_def ascii_def)
  with apple_valid show ?thesis by blast
qed

section \<open>Properties of removing a word\<close>

lemma build_word_dict_snoc:
  "build_word_dict (ws @ [r]) = (build_word_dict ws)(uw_english_word r \<mapsto> uw_user_word_id r)"
  by (simp add: build_word_dict_def)

lemma dom_build_word_dict: "dom (build_word_dict ws) = uw_english_word ` set ws"
proof (induction ws rule: rev_induct)
  case Nil
  then show ?case by (simp add: build_word_dict_def)
next
  case (snoc r ws)
  have "dom (build_word_dict (ws @ [r])) = insert (uw_english_word r) (dom (build_word_dict ws))"
    unfolding build_word_dict_snoc by (simp only: dom_fun_upd option.simps if_False)
  then show ?case using snoc by simp
qed

lemma build_word_dict_Some:
  "build_word_dict ws w = Some k \<Longrightarrow>
     \<exists>r\<in>set ws. uw_english_word r = w \<and> uw_user_word_id r = k"
proof (induction ws rule: rev_induct)
  case Nil
  then show ?case by (simp add: build_word_dict_def)
next
  case (snoc r ws)
  then show ?case by (auto simp: build_word_dict_snoc split: if_splits)
qed

lemma remove_word_dict:
  assumes "next_handler (remove_word e db msg) = Some (ConfirmRemove word_dict)"
  shows "word_dict = build_word_dict (active_user_words db (from_user_id msg))"
  using assms by (auto simp: remove_word_def respond_def Let_def split: if_splits)

lemma remove_word_lists:
  assumes "connect_ok e" and "execute_ok e" and "active_user_words db (from_user_id msg) \<noteq> []"
  shows "next_handler (remove_word e db msg) =
           Some (ConfirmRemove (build_word_dict (active_user_words db (from_user_id msg))))"
  using assms by (simp add: remove_word_def Let_def)

lemma confirm_remove_not_found:
  assumes "msg_text msg = Some w" and "w \<noteq> main_menu_text" and "word_dict w = None"
  shows "confirm_remove e db msg word_dict = respond db WordNotFound MainKeyboard"
  using assms by (simp add: confirm_remove_def Let_def)

lemma confirm_remove_found:
  assumes "msg_text msg = Some w" and "w \<noteq> main_menu_text" and "word_dict w = Some k"
      and "connect_ok e" and "execute_ok e"
  shows "confirm_remove e db msg word_dict =
           respond (deactivate_user_word db k (from_user_id msg))
             (WordRemoved w
                (count_active_user_words (deactivate_user_word db k (from_user_id msg))
                   (from_user_id msg)))
             MainKeyboard"
  using assms by (simp add: confirm_remove_def Let_def)

lemma map_deactivate_update:
  assumes "distinct (map uw_user_word_id xs)" and "i < length xs" and "uw_user_id (xs ! i) = uid"
  shows "map (\<lambda>w. if uw_user_word_id w = uw_user_word_id (xs ! i) \<and> uw_user_id w = uid
                  then w\<lparr>uw_is_active := False\<rparr> else w) xs =
         xs[i := (xs ! i)\<lparr>uw_is_active := False\<rparr>]"
proof (rule nth_equalityI)
  show "length (map (\<lambda>w. if uw_user_word_id w = uw_user_word_id (xs ! i) \<and> uw_user_id w = uid
                  then w\<lparr>uw_is_active := False\<rparr> else w) xs) =
        length (xs[i := (xs ! i)\<lparr>uw_is_active := False\<rparr>])"
    by simp
next
  fix j
  assume "j < length (map (\<lambda>w. if uw_user_word_id w = uw_user_word_id (xs ! i) \<and> uw_user_id w = uid
                  then w\<lparr>uw_is_active := False\<rparr> else w) xs)"
  then have j: "j < length xs" by simp
  show "map (\<lambda>w. if uw_user_word_id w = uw_user_word_id (xs ! i) \<and> uw_user_id w = uid
                  then w\<lparr>uw_is_active := False\<rparr> else w) xs ! j =
        xs[i := (xs ! i)\<lparr>uw_is_active := False\<rparr>] ! j"
  proof (cases "j = i")
    case True
    then show ?thesis using assms(2,3) by simp
  next
    case False
    have "uw_user_word_id (xs ! j) \<noteq> uw_user_word_id (xs ! i)"
      using nth_eq_iff_index_eq[OF assms(1), of j i] j assms(2) False by simp
    then show ?thesis using False j by simp
  qed
qed

lemma length_filter_update_drop:
  assumes "i < length xs" and "P (xs ! i)" and "\<not> P y"
  shows "Suc (length (filter P (xs[i := y]))) = length (filter P xs)"
proof -
  have "length (filter P xs) = length (filter P (take i xs @ xs ! i # drop (Suc i) xs))"
    using id_take_nth_drop[OF assms(1)] by simp
  moreover have "xs[i := y] = take i xs @ y # drop (Suc i) xs"
    using assms(1) by (rule upd_conv_take_nth_drop)
  ultimately show ?thesis using assms(2,3) by simp
qed

lemma deactivate_active_row:
  assumes "distinct (map uw_user_word_id (user_words db))"
      and "r \<in> set (active_user_words db uid)"
  shows "\<exists>i<length (user_words db).
           user_words db ! i = r \<and>
           user_words (deactivate_user_word db (uw_user_word_id r) uid) =
             (user_words db)[i := r\<lparr>uw_is_active := False\<rparr>]"
    and "Suc (count_active_user_words (deactivate_user_word db (uw_user_word_id r) uid) uid) =
           count_active_user_words db uid"
proof -
  from assms(2) have r: "r \<in> set (user_words db)" "uw_user_id r = uid" "uw_is_active r"
    by (auto simp: active_user_words_def)
  then obtain i where i: "i < length (user_words db)" "user_words db ! i = r"
    by (auto simp: in_set_conv_nth)
  have upd: "user_words (deactivate_user_word db (uw_user_word_id r) uid) =
               (user_words db)[i := r\<lparr>uw_is_active := False\<rparr>]"
    using map_deactivate_update[OF assms(1) i(1), of uid] i(2) r(2)
    by (simp add: deactivate_user_word_def)
  with i show "\<exists>i<length (user_words db).
           user_words db ! i = r \<and>
           user_words (deactivate_user_word db (uw_user_word_id r) uid) =
             (user_words db)[i := r\<lparr>uw_is_active := False\<rparr>]"
    by blast
  show "Suc (count_active_user_words (deactivate_user_word db (uw_user_word_id r) uid) uid) =
           count_active_user_words db uid"
    unfolding count_active_user_words_def active_user_words_def upd
    by (rule length_filter_update_drop) (use i r in simp_all)
qed

lemma deactivate_other_tables:
  "users (deactivate_user_word db k uid) = users db"
  "common_words (deactivate_user_word db k uid) = common_words db"
  "user_stats (deactivate_user_word db k uid) = user_stats db"
  "length (user_words (deactivate_user_word db k uid)) = length (user_words db)"
  by (simp_all add: deactivate_user_word_def)

text \<open>
  C7, as the code has it. \<open>confirm_remove\<close> looks the reply up by exact text in the dictionary
  it was handed, which \<open>remove_word\<close> built when the list was rendered; the store is not
  asked again. For a reply other than the main-menu text: a text that is no key of the
  dictionary gets the not-found message and the store is unchanged. A text that is a key,
  with the store reachable, gets the removal message, and the update only clears the
  \<^verbatim>\<open>is_active\<close> flag of the rows with that key and this user: the table keeps its length,
  every other row and every other field stays, the other tables are unchanged. When the
  dictionary was built by \<open>remove_word\<close> from this very store for this user, its keys are the
  texts of the user's active words, the key found belongs to an active row with that text,
  and (keys being unique) the table after the call is the table before with that one row's
  flag set to false.
\<close>

theorem confirm_remove_soft_delete:
  assumes "msg_text msg = Some w" and "w \<noteq> main_menu_text"
  shows "(word_dict w = None \<longrightarrow>
            confirm_remove e db msg word_dict = respond db WordNotFound MainKeyboard) \<and>
         (\<forall>k. word_dict w = Some k \<and> connect_ok e \<and> execute_ok e \<longrightarrow>
            confirm_remove e db msg word_dict =
              respond (deactivate_user_word db k (from_user_id msg))
                (WordRemoved w
                   (count_active_user_words
                      (deactivate_user_word db k (from_user_id msg)) (from_user_id msg)))
                MainKeyboard \<and>
            length (user_words (deactivate_user_word db k (from_user_id msg))) =
              length (user_words db) \<and>
            (\<forall>i<length (user_words db).
               user_words (deactivate_user_word db k (from_user_id msg)) ! i =
                 (if uw_user_word_id (user_words db ! i) = k \<and>
                     uw_user_id (user_words db ! i) = from_user_id msg
                  then (user_words db ! i)\<lparr>uw_is_active := False\<rparr>
                  else user_words db ! i)) \<and>
            users (deactivate_user_word db k (from_user_id msg)) = users db \<and>
            common_words (deactivate_user_word db k (from_user_id msg)) = common_words db \<and>
            user_stats (deactivate_user_word db k (from_user_id msg)) = user_stats db) \<and>
         (next_handler (remove_word e0 db msg0) = Some (ConfirmRemove word_dict) \<and>
          from_user_id msg0 = from_user_id msg \<longrightarrow>
            (word_dict w = None \<longleftrightarrow>
               w \<notin> uw_english_word ` set (active_user_words db (from_user_id msg))) \<and>
            (\<forall>k. word_dict w = Some k \<longrightarrow>
               (\<exists>r\<in>set (active_user_words db (from_user_id msg)).
                  uw_english_word r = w \<and> uw_user_word_id r = k \<and>
                  (distinct (map uw_user_word_id (user_words db)) \<longrightarrow>
                     (\<exists>i<length (user_words db).
                        user_words db ! i = r \<and>
                        user_words (deactivate_user_word db k (from_user_id msg)) =
                          (user_words db)[i := r\<lparr>uw_is_active := False\<rparr>])))))"
proof -
  let ?uid = "from_user_id msg"
  have not_found: "word_dict w = None \<longrightarrow>
            confirm_remove e db msg word_dict = respond db WordNotFound MainKeyboard"
    using confirm_remove_not_found[of msg w word_dict e db] assms by blast
  have found: "confirm_remove e db msg word_dict =
              respond (deactivate_user_word db k ?uid)
                (WordRemoved w
                   (count_active_user_words (deactivate_user_word db k ?uid) ?uid))
                MainKeyboard \<and>
            length (user_words (deactivate_user_word db k ?uid)) = length (user_words db) \<and>
            (\<forall>i<length (user_words db).
               user_words (deactivate_user_word db k ?uid) ! i =
                 (if uw_user_word_id (user_words db ! i) = k \<and>
                     uw_user_id (user_words db ! i) = ?uid
                  then (user_words db ! i)\<lparr>uw_is_active := False\<rparr>
                  else user_words db ! i)) \<and>
            users (deactivate_user_word db k ?uid) = users db \<and>
            common_words (deactivate_user_word db k ?uid) = common_words db \<and>
            user_stats (deactivate_user_word db k ?uid) = user_stats db"
    if "word_dict w = Some k \<and> connect_ok e \<and> execute_ok e" for k
  proof -
    have "confirm_remove e db msg word_dict =
              respond (deactivate_user_word db k ?uid)
                (WordRemoved w
                   (count_active_user_words (deactivate_user_word db k ?uid) ?uid))
                MainKeyboard"
      using confirm_remove_found[of msg w word_dict k e db] assms that by blast
    moreover have "\<forall>i<length (user_words db).
               user_words (deactivate_user_word db k ?uid) ! i =
                 (if uw_user_word_id (user_words db ! i) = k \<and>
                     uw_user_id (user_words db ! i) = ?uid
                  then (user_words db ! i)\<lparr>uw_is_active := False\<rparr>
                  else user_words db ! i)"
      by (simp add: deactivate_user_word_def)
    ultimately show ?thesis
      using deactivate_other_tables[of db k ?uid] by blast
  qed
  have fresh: "(word_dict w = None \<longleftrightarrow>
               w \<notin> uw_english_word ` set (active_user_words db ?uid)) \<and>
            (\<forall>k. word_dict w = Some k \<longrightarrow>
               (\<exists>r\<in>set (active_user_words db ?uid).
                  uw_english_word r = w \<and> uw_user_word_id r = k \<and>
                  (distinct (map uw_user_word_id (user_words db)) \<longrightarrow>
                     (\<exists>i<length (user_words db).
                        user_words db ! i = r \<and>
                        user_words (deactivate_user_word db k ?uid) =
                          (user_words db)[i := r\<lparr>uw_is_active := False\<rparr>]))))"
    if h: "next_handler (remove_word e0 db msg0) = Some (ConfirmRemove word_dict) \<and>
           from_user_id msg0 = from_user_id msg"
  proof -
    have wd: "word_dict = build_word_dict (active_user_words db ?uid)"
      using remove_word_dict[of e0 db msg0 word_dict] h by simp
    have keys: "word_dict w = None \<longleftrightarrow>
                  w \<notin> uw_english_word ` set (active_user_words db ?uid)"
      using dom_build_word_dict[of "active_user_words db ?uid"] unfolding wd by blast
    have row: "\<exists>r\<in>set (active_user_words db ?uid).
                  uw_english_word r = w \<and> uw_user_word_id r = k \<and>
                  (distinct (map uw_user_word_id (user_words db)) \<longrightarrow>
                     (\<exists>i<length (user_words db).
                        user_words db ! i = r \<and>
                        user_words (deactivate_user_word db k ?uid) =
                          (user_words db)[i := r\<lparr>uw_is_active := False\<rparr>]))"
      if k: "word_dict w = Some k" for k
    proof -
      from build_word_dict_Some[OF k[unfolded wd]]
      obtain r where r: "r \<in> set (active_user_words db ?uid)" "uw_english_word r = w"
        "uw_user_word_id r = k" by blast
      have "distinct (map uw_user_word_id (user_words db)) \<longrightarrow>
                     (\<exists>i<length (user_words db).
                        user_words db ! i = r \<and>
                        user_words (deactivate_user_word db k ?uid) =
                          (user_words db)[i := r\<lparr>uw_is_active := False\<rparr>])"
        using deactivate_active_row(1)[OF _ r(1)] unfolding r(3) by blast
      with r show ?thesis by blast
    qed
    from keys row show ?thesis by blast
  qed
  from not_found found fresh show ?thesis by blast
qed

text \<open>
  C7 for user 1, whose entries for "apple" are one active and one removed earlier, with the
  dictionary just built from the store: "pear" is not found, and removing "apple" only
  clears the flag of the active row.
\<close>

theorem confirm_remove_soft_delete_witness:
  "confirm_remove up_env apple_db \<lparr>from_user_id = 1, msg_text = Some (ascii ''pear'')\<rparr>
     (build_word_dict (active_user_words apple_db 1)) =
     respond apple_db WordNotFound MainKeyboard \<and>
   confirm_remove up_env apple_db \<lparr>from_user_id = 1, msg_text = Some (ascii ''apple'')\<rparr>
     (build_word_dict (active_user_words apple_db 1)) =
     respond
       (apple_db\<lparr>user_words :=
          [\<lparr>uw_user_word_id = 1, uw_user_id = 1, uw_english_word = ascii ''apple'',
            uw_russian_translation = tr_apple, uw_is_active = False\<rparr>,
           \<lparr>uw_user_word_id = 2, uw_user_id = 1, uw_english_word = ascii ''apple'',
            uw_russian_translation = tr_apple, uw_is_active = False\<rparr>]\<rparr>)
       (WordRemoved (ascii ''apple'') 0) MainKeyboard"
proof -
  let ?wd = "build_word_dict (active_user_words apple_db 1)"
  let ?pear = "\<lparr>from_user_id = 1, msg_text = Some (ascii ''pear'')\<rparr>"
  let ?apple = "\<lparr>from_user_id = 1, msg_text = Some (ascii ''apple'')\<rparr>"
  have act: "active_user_words apple_db 1 =
               [\<lparr>uw_user_word_id = 1, uw_user_id = 1, uw_english_word = ascii ''apple'',
                 uw_russian_translation = tr_apple, uw_is_active = True\<rparr>]"
    by (simp add: active_user_words_def apple_db_def)
  have pear: "ascii ''pear'' \<noteq> main_menu_text" and apple: "ascii ''apple'' \<noteq> main_menu_text"
    by (simp_all add: ascii_def main_menu_text_def)
  have np: "?wd (ascii ''pear'') = None"
    by (simp add: act build_word_dict_def ascii_def)
  have ya: "?wd (ascii ''apple'') = Some 1 \<and> connect_ok up_env \<and> execute_ok up_env"
    by (simp add: act build_word_dict_def up_env_def)
  have first: "confirm_remove up_env apple_db ?pear ?wd =
               respond apple_db WordNotFound MainKeyboard"
    using confirm_remove_soft_delete[where msg = ?pear and w = "ascii ''pear''"
        and word_dict = ?wd and e = up_env and db = apple_db and ?e0.0 = up_env
        and ?msg0.0 = ?pear] pear np
    by simp
  have eq: "confirm_remove up_env apple_db ?apple ?wd =
             respond (deactivate_user_word apple_db 1 1)
               (WordRemoved (ascii ''apple'')
                  (count_active_user_words (deactivate_user_word apple_db 1 1) 1))
               MainKeyboard"
    using confirm_remove_soft_delete[where msg = ?apple and w = "ascii ''apple''"
        and word_dict = ?wd and e = up_env and db = apple_db and ?e0.0 = up_env
        and ?msg0.0 = ?apple] apple ya
    by simp
  have d: "deactivate_user_word apple_db 1 1 =
       apple_db\<lparr>user_words :=
          [\<lparr>uw_user_word_id = 1, uw_user_id = 1, uw_english_word = ascii ''apple'',
            uw_russian_translation = tr_apple, uw_is_active = False\<rparr>,
           \<lparr>uw_user_word_id = 2, uw_user_id = 1, uw_english_word = ascii ''apple'',
            uw_russian_translation = tr_apple, uw_is_active = False\<rparr>]\<rparr>"
    by (simp add: deactivate_user_word_def apple_db_def)
  have c: "count_active_user_words (deactivate_user_word apple_db 1 1) 1 = 0"
    unfolding d by (simp add: count_active_user_words_def active_user_words_def)
  from eq have second: "confirm_remove up_env apple_db ?apple ?wd =
     respond
       (apple_db\<lparr>user_words :=
          [\<lparr>uw_user_word_id = 1, uw_user_id = 1, uw_english_word = ascii ''apple'',
            uw_russian_translation = tr_apple, uw_is_active = False\<rparr>,
           \<lparr>uw_user_word_id = 2, uw_user_id = 1, uw_english_word = ascii ''apple'',
            uw_russian_translation = tr_apple, uw_is_active = False\<rparr>]\<rparr>)
       (WordRemoved (ascii ''apple'') 0) MainKeyboard"
    unfolding c unfolding d .
  from first second show ?thesis by blast
qed

text \<open>
  C7 as stated fails for a stale selection. User 1 opens the removal list, which shows
  "apple"; the word is then removed, so the user has no active word left; the user now
  chooses "apple" from the outdated list. The dictionary of that list still holds the key,
  the update changes nothing, and the answer is the removal message, not the not-found
  message.
\<close>

theorem confirm_remove_stale_selection:
  "next_handler (remove_word up_env apple_db
      \<lparr>from_user_id = 1, msg_text = Some (ascii ''/remove_word'')\<rparr>) =
     Some (ConfirmRemove (build_word_dict (active_user_words apple_db 1))) \<and>
   active_user_words (deactivate_user_word apple_db 1 1) 1 = [] \<and>
   confirm_remove up_env (deactivate_user_word apple_db 1 1)
     \<lparr>from_user_id = 1, msg_text = Some (ascii ''apple'')\<rparr>
     (build_word_dict (active_user_words apple_db 1)) =
     respond (deactivate_user_word apple_db 1 1) (WordRemoved (ascii ''apple'') 0) MainKeyboard"
proof -
  let ?wd = "build_word_dict (active_user_words apple_db 1)"
  let ?m0 = "\<lparr>from_user_id = 1, msg_text = Some (ascii ''/remove_word'')\<rparr>"
  let ?apple = "\<lparr>from_user_id = 1, msg_text = Some (ascii ''apple'')\<rparr>"
  have act: "active_user_words apple_db 1 =
               [\<lparr>uw_user_word_id = 1, uw_user_id = 1, uw_english_word = ascii ''apple'',
                 uw_russian_translation = tr_apple, uw_is_active = True\<rparr>]"
    by (simp add: active_user_words_def apple_db_def)
  have h: "next_handler (remove_word up_env apple_db ?m0) = Some (ConfirmRemove ?wd)"
    using remove_word_lists[of up_env apple_db ?m0] by (simp add: up_env_def act)
  have d: "deactivate_user_word apple_db 1 1 =
       apple_db\<lparr>user_words :=
          [\<lparr>uw_user_word_id = 1, uw_user_id = 1, uw_english_word = ascii ''apple'',
            uw_russian_translation = tr_apple, uw_is_active = False\<rparr>,
           \<lparr>uw_user_word_id = 2, uw_user_id = 1, uw_english_word = ascii ''apple'',
            uw_russian_translation = tr_apple, uw_is_active = False\<rparr>]\<rparr>"
    by (simp add: deactivate_user_word_def apple_db_def)
  have gone: "active_user_words (deactivate_user_word apple_db 1 1) 1 = []"
    unfolding d by (simp add: active_user_words_def)
  have again: "deactivate_user_word (deactivate_user_word apple_db 1 1) 1 1 =
                 deactivate_user_word apple_db 1 1"
    unfolding d by (simp add: deactivate_user_word_def)
  have apple: "ascii ''apple'' \<noteq> main_menu_text"
    by (simp add: ascii_def main_menu_text_def)
  have k: "?wd (ascii ''apple'') = Some 1"
    by (simp add: act build_word_dict_def)
  have "confirm_remove up_env (deactivate_user_word apple_db 1 1) ?apple ?wd =
          respond (deactivate_user_word apple_db 1 1) (WordRemoved (ascii ''apple'') 0)
            MainKeyboard"
    using confirm_remove_found[of ?apple "ascii ''apple''" ?wd 1 up_env
        "deactivate_user_word apple_db 1 1"] apple k
    by (simp add: up_env_def again count_active_user_words_def gone)
  with h gone show ?thesis by blast
qed

lemma key_invariant_insert:
  assumes "key_invariant db"
  shows "distinct (map uw_user_word_id
           (user_words db @
              [\<lparr>uw_user_word_id = user_word_seq db, uw_user_id = uid, uw_english_word = en,
                uw_russian_translation = ru, uw_is_active = True\<rparr>]))"
proof -
  from assms have d: "distinct (map uw_user_word_id (user_words db))"
    and lt: "\<And>w. w \<in> set (user_words db) \<Longrightarrow> uw_user_word_id w < user_word_seq db"
    by (auto simp: key_invariant_def list_all_iff)
  have "user_word_seq db \<notin> uw_user_word_id ` set (user_words db)"
    using lt by force
  with d show ?thesis by simp
qed

text \<open>
  C8: for every store that respects the primary key, and every registered user, with the
  store reachable: adding \<^verbatim>\<open>"Apple - <Yabloko>"\<close>, opening the removal list and choosing
  \<^verbatim>\<open>"apple"\<close> leaves the number of the user's active words where it was before the add,
  whatever entries for "apple" the user already had. The add reports one word more, the
  removal the original number.
\<close>

theorem add_then_remove_count:
  assumes "key_invariant db" and "connect_ok e" and "execute_ok e" and "user_exists db uid"
  shows "\<exists>db1 word_dict.
           process_new_word e db \<lparr>from_user_id = uid, msg_text = Some apple_input\<rparr> =
             respond db1 (WordAdded (ascii ''Apple'') (count_active_user_words db uid + 1))
               MainKeyboard \<and>
           next_handler (remove_word e db1 \<lparr>from_user_id = uid, msg_text = t\<rparr>) =
             Some (ConfirmRemove word_dict) \<and>
           sent (confirm_remove e db1 \<lparr>from_user_id = uid, msg_text = Some (ascii ''apple'')\<rparr>
                   word_dict) =
             [(WordRemoved (ascii ''apple'') (count_active_user_words db uid), MainKeyboard)] \<and>
           count_active_user_words
             (db_after (confirm_remove e db1
                \<lparr>from_user_id = uid, msg_text = Some (ascii ''apple'')\<rparr> word_dict)) uid =
             count_active_user_words db uid"
proof -
  let ?new = "\<lparr>uw_user_word_id = user_word_seq db, uw_user_id = uid,
               uw_english_word = ascii ''apple'', uw_russian_translation = tr_apple,
               uw_is_active = True\<rparr>"
  let ?db1 = "db\<lparr>user_words := user_words db @ [?new], user_word_seq := user_word_seq db + 1\<rparr>"
  let ?add = "\<lparr>from_user_id = uid, msg_text = Some apple_input\<rparr>"
  let ?rm = "\<lparr>from_user_id = uid, msg_text = t\<rparr>"
  let ?cf = "\<lparr>from_user_id = uid, msg_text = Some (ascii ''apple'')\<rparr>"
  let ?wd = "build_word_dict (active_user_words ?db1 uid)"
  have added: "process_new_word e db ?add =
          respond ?db1 (WordAdded (ascii ''Apple'') (count_active_user_words db uid + 1))
            MainKeyboard"
    using process_new_word_stored[of ?add apple_input "ascii ''Apple''"
        "[1071, 1073, 1083, 1086, 1082, 1086]" e db] assms(2-4)
    by (simp add: apple_segments apple_lower) (simp add: ascii_def tr_apple_def)
  have act1: "active_user_words ?db1 uid = active_user_words db uid @ [?new]"
    by (simp add: active_user_words_def)
  have cnt1: "count_active_user_words ?db1 uid = Suc (count_active_user_words db uid)"
    by (simp add: count_active_user_words_def act1)
  have listed: "next_handler (remove_word e ?db1 ?rm) = Some (ConfirmRemove ?wd)"
    using remove_word_lists[of e ?db1 ?rm] assms(2,3) by (simp add: act1)
  have "ascii ''apple'' \<in> dom ?wd"
    by (simp add: dom_build_word_dict act1)
  then obtain k where k: "?wd (ascii ''apple'') = Some k" by blast
  from build_word_dict_Some[OF k]
  obtain r where r: "r \<in> set (active_user_words ?db1 uid)" "uw_user_word_id r = k" by blast
  have nm: "ascii ''apple'' \<noteq> main_menu_text"
    by (simp add: ascii_def main_menu_text_def)
  have conf: "confirm_remove e ?db1 ?cf ?wd =
          respond (deactivate_user_word ?db1 k uid)
            (WordRemoved (ascii ''apple'')
               (count_active_user_words (deactivate_user_word ?db1 k uid) uid))
            MainKeyboard"
    using confirm_remove_found[of ?cf "ascii ''apple''" ?wd k e ?db1] nm k assms(2,3) by simp
  have "distinct (map uw_user_word_id (user_words ?db1))"
    using key_invariant_insert[OF assms(1)] by simp
  from deactivate_active_row(2)[OF this r(1)]
  have cnt2: "count_active_user_words (deactivate_user_word ?db1 k uid) uid =
                count_active_user_words db uid"
    unfolding r(2) cnt1 by simp
  have "sent (confirm_remove e ?db1 ?cf ?wd) =
          [(WordRemoved (ascii ''apple'') (count_active_user_words db uid), MainKeyboard)]"
    and "count_active_user_words (db_after (confirm_remove e ?db1 ?cf ?wd)) uid =
          count_active_user_words db uid"
    by (simp_all add: conf respond_def cnt2)
  with added listed show ?thesis by blast
qed

text \<open>
  C8 for user 1 with an active and a removed entry for "apple" already in the dictionary:
  one active word before, one after.
\<close>

theorem add_then_remove_count_witness:
  "key_invariant apple_db \<and> user_exists apple_db 1 \<and> count_active_user_words apple_db 1 = 1 \<and>
   (\<exists>db1 word_dict.
      process_new_word up_env apple_db \<lparr>from_user_id = 1, msg_text = Some apple_input\<rparr> =
        respond db1 (WordAdded (ascii ''Apple'') 2) MainKeyboard \<and>
      next_handler (remove_word up_env db1
          \<lparr>from_user_id = 1, msg_text = Some (ascii ''/remove_word'')\<rparr>) =
        Some (ConfirmRemove word_dict) \<and>
      sent (confirm_remove up_env db1
          \<lparr>from_user_id = 1, msg_text = Some (ascii ''apple'')\<rparr> word_dict) =
        [(WordRemoved (ascii ''apple'') 1, MainKeyboard)] \<and>
      count_active_user_words
        (db_after (confirm_remove up_env db1
           \<lparr>from_user_id = 1, msg_text = Some (ascii ''apple'')\<rparr> word_dict)) 1 = 1)"
proof -
  have k: "key_invariant apple_db"
    by (simp add: key_invariant_def apple_db_def)
  have c: "connect_ok up_env" and x: "execute_ok up_env"
    by (simp_all add: up_env_def)
  have u: "user_exists apple_db 1"
    by (simp add: user_exists_def apple_db_def)
  have cnt: "count_active_user_words apple_db 1 = 1"
    by (simp add: count_active_user_words_def active_user_words_def apple_db_def)
  have two: "count_active_user_words apple_db 1 + 1 = 2"
    by (simp add: cnt)
  show ?thesis
    using add_then_remove_count[OF k c x u, of "Some (ascii ''/remove_word'')"] k u cnt
    unfolding two by simp
qed

section \<open>Failure paths\<close>

text \<open>
  C9 does not hold for three handlers. When \<^verbatim>\<open>safe_connect\<close> returns \<^verbatim>\<open>None\<close>, \<open>start\<close>,
  \<open>process_new_word\<close> (on a well-formed pair) and \<open>confirm_remove\<close> (on a listed word) return
  without sending any message, while \<open>start_quiz\<close>, \<open>remove_word\<close> and \<open>show_stats\<close> answer
  the same situation with the connection error and the main keyboard. In \<open>start\<close> a failing
  statement is not caught either and leaves the handler as an exception.
\<close>

theorem silent_when_store_unreachable:
  "sent (start down_env db \<lparr>from_user_id = uid, msg_text = Some (ascii ''/start'')\<rparr>) = [] \<and>
   sent (process_new_word down_env db \<lparr>from_user_id = uid, msg_text = Some apple_input\<rparr>) = [] \<and>
   sent (confirm_remove down_env db
           \<lparr>from_user_id = uid, msg_text = Some (ascii ''apple'')\<rparr>
           [ascii ''apple'' \<mapsto> 1]) = [] \<and>
   raised (start \<lparr>connect_ok = True, execute_ok = False\<rparr> db
             \<lparr>from_user_id = uid, msg_text = Some (ascii ''/start'')\<rparr>) = Some DatabaseError \<and>
   start_quiz down_env rnd db \<lparr>from_user_id = uid, msg_text = Some (ascii ''/quiz'')\<rparr> =
     respond db DbConnectError MainKeyboard \<and>
   remove_word down_env db \<lparr>from_user_id = uid, msg_text = Some (ascii ''/remove_word'')\<rparr> =
     respond db DbConnectError MainKeyboard \<and>
   show_stats down_env db \<lparr>from_user_id = uid, msg_text = Some (ascii ''/stats'')\<rparr> =
     respond db DbConnectError MainKeyboard"
proof -
  have nm: "ascii ''apple'' \<noteq> main_menu_text"
    by (simp add: ascii_def main_menu_text_def)
  have p: "parse_word_pair apple_input =
             Inr (ascii ''Apple'', [1071, 1073, 1083, 1086, 1082, 1086])"
    by (simp add: parse_word_pair_spec apple_segments) (simp add: ascii_def)
  show ?thesis
    using nm
    by (simp add: start_def process_new_word_def confirm_remove_def start_quiz_def
        remove_word_def show_stats_def down_env_def silent_def p Let_def)
qed

section \<open>Properties of the statistics\<close>

lemma round_half_even_error: "\<bar>of_int (round_half_even y) - y\<bar> \<le> 1 / 2"
proof -
  have "of_int \<lfloor>y\<rfloor> \<le> y" and "y < of_int \<lfloor>y\<rfloor> + 1" by linarith+
  then show ?thesis
    unfolding round_half_even_def Let_def by (auto simp: abs_le_iff)
qed

lemma power_int_2_nonneg:
  assumes "0 \<le> k"
  shows "power_int (2::rat) k = of_int (2 ^ nat k)"
  using assms by (simp add: power_int_def)

lemma bitlen_pos: "0 < a \<Longrightarrow> 1 \<le> bitlen a"
  using bitlen_eq_zero_iff[of a] bitlen_nonneg[of a] by linarith

lemma binary64_exponent_lower:
  assumes "0 < x"
  shows "power_int 2 (binary64_exponent x) \<le> x"
proof (cases "1 \<le> x")
  case True
  then have f: "0 < \<lfloor>x\<rfloor>" by linarith
  have e: "binary64_exponent x = bitlen \<lfloor>x\<rfloor> - 1"
    using True by (simp add: binary64_exponent_def)
  have k: "0 \<le> bitlen \<lfloor>x\<rfloor> - 1" using bitlen_pos[OF f] by simp
  have "(2::int) ^ nat (bitlen \<lfloor>x\<rfloor> - 1) \<le> \<lfloor>x\<rfloor>"
    using bitlen_bounds[OF f] by blast
  then have "(of_int (2 ^ nat (bitlen \<lfloor>x\<rfloor> - 1)) :: rat) \<le> of_int \<lfloor>x\<rfloor>"
    by (simp only: of_int_le_iff)
  also have "\<dots> \<le> x" by simp
  finally show ?thesis
    unfolding e power_int_2_nonneg[OF k] .
next
  case False
  with assms have x: "0 < x" "x < 1" by simp_all
  let ?m = "\<lceil>1 / x\<rceil> - 1"
  have "1 < 1 / x" using x by simp
  then have m: "0 < ?m" by linarith
  have e: "binary64_exponent x = - bitlen ?m"
    using False by (simp add: binary64_exponent_def)
  have k: "0 \<le> bitlen ?m" by (rule bitlen_nonneg)
  have "?m < 2 ^ nat (bitlen ?m)"
    using bitlen_bounds[OF m] by blast
  then have "\<lceil>1 / x\<rceil> \<le> 2 ^ nat (bitlen ?m)" by linarith
  then have "(of_int \<lceil>1 / x\<rceil> :: rat) \<le> of_int (2 ^ nat (bitlen ?m))"
    by (simp only: of_int_le_iff)
  moreover have "1 / x \<le> of_int \<lceil>1 / x\<rceil>" by simp
  ultimately have le: "1 / x \<le> of_int (2 ^ nat (bitlen ?m))" by linarith
  have p: "0 < (of_int (2 ^ nat (bitlen ?m)) :: rat)" by simp
  from le x(1) p have "1 / of_int (2 ^ nat (bitlen ?m)) \<le> x"
    by (simp add: field_simps)
  then show ?thesis
    unfolding e power_int_minus power_int_2_nonneg[OF k] by (simp add: inverse_eq_divide)
qed

lemma round_binary64_error:
  assumes "0 < x"
  shows "\<bar>round_binary64 x - x\<bar> \<le> x / 2 ^ 53"
proof -
  let ?e = "binary64_exponent x"
  let ?ulp = "power_int (2::rat) (?e - 52)"
  have ulp_pos: "0 < ?ulp" by simp
  have ulp: "?ulp = power_int 2 ?e / 2 ^ 52"
    by (simp add: power_int_diff)
  have r: "round_binary64 x = of_int (round_half_even (x / ?ulp)) * ?ulp"
    using assms by (simp add: round_binary64_def Let_def)
  have "\<bar>round_binary64 x - x\<bar> = \<bar>of_int (round_half_even (x / ?ulp)) - x / ?ulp\<bar> * ?ulp"
  proof -
    have "round_binary64 x - x = (of_int (round_half_even (x / ?ulp)) - x / ?ulp) * ?ulp"
      using ulp_pos unfolding r by (simp add: field_simps)
    then show ?thesis using ulp_pos by (simp add: abs_mult)
  qed
  also have "\<dots> \<le> (1 / 2) * ?ulp"
    using round_half_even_error[of "x / ?ulp"] ulp_pos by (intro mult_right_mono) simp_all
  also have "\<dots> = power_int 2 ?e / 2 ^ 53" unfolding ulp by simp
  also have "\<dots> \<le> x / 2 ^ 53"
    using binary64_exponent_lower[OF assms] by (simp add: divide_right_mono)
  finally show ?thesis .
qed


lemma round_binary64_zero: "round_binary64 0 = 0"
  by (simp add: round_binary64_def)

lemma accuracy_value_error:
  assumes "0 < t" and "c \<le> t"
  shows "\<bar>accuracy_value c t - 100 * of_nat c / of_nat t\<bar> \<le>
           (100 * of_nat c / of_nat t) * (2 / 2 ^ 53 + 1 / 2 ^ 106)"
proof (cases "c = 0")
  case True
  then show ?thesis using assms by (simp add: accuracy_value_def round_binary64_zero)
next
  case False
  define x :: rat where "x = of_nat c / of_nat t"
  define q where "q = round_binary64 x"
  define D where "D = round_binary64 (q * 100)"
  have x: "0 < x" using False assms by (simp add: x_def)
  have p53: "(2::rat) ^ 53 = 9007199254740992"
    and p106: "(2::rat) ^ 106 = 81129638414606681695789005144064"
    by simp_all
  have q1: "\<bar>q - x\<bar> \<le> x / 9007199254740992"
    using round_binary64_error[OF x] unfolding q_def p53 .
  have qpos: "0 < q * 100" using q1 x by linarith
  have D1: "\<bar>D - q * 100\<bar> \<le> q * 100 / 9007199254740992"
    using round_binary64_error[OF qpos] unfolding D_def p53 .
  have acc: "accuracy_value c t = D"
    using assms by (simp add: accuracy_value_def D_def q_def x_def)
  have "\<bar>D - 100 * x\<bar> \<le>
          200 * x / 9007199254740992 + 100 * x / 81129638414606681695789005144064"
    using q1 D1 x by linarith
  then have "\<bar>D - 100 * x\<bar> \<le>
          (100 * x) * (2 / 9007199254740992 + 1 / 81129638414606681695789005144064)"
    by (simp add: algebra_simps)
  then have "\<bar>D - 100 * x\<bar> \<le> (100 * x) * (2 / 2 ^ 53 + 1 / 2 ^ 106)"
    unfolding p53 p106 .
  then show ?thesis unfolding acc x_def by simp
qed


lemma format_1f_error: "\<bar>of_int (format_1f x) - x * 10\<bar> \<le> 1 / 2"
  unfolding format_1f_def by (rule round_half_even_error)

lemma format_1f_exact:
  assumes "0 < t" and "c \<le> t" and "c < 2 ^ 41"
  shows "\<bar>of_int (format_1f (accuracy_value c t)) / 10 - 100 * of_nat c / of_nat t\<bar>
           \<le> (1 / 20 :: rat)"
proof -
  define T :: rat where "T = of_nat t"
  define C :: rat where "C = of_nat c"
  define Y where "Y = C / T"
  define D where "D = accuracy_value c t"
  define k where "k = format_1f D"
  define K :: rat where "K = of_int k"
  define n where "n = k * int t - 1000 * int c"
  have T: "0 < T" using assms(1) by (simp add: T_def)
  have "c < 2199023255552" using assms(3) by simp
  then have "(of_nat c :: rat) < of_nat 2199023255552" by (simp only: of_nat_less_iff)
  then have C: "0 \<le> C" "C < 2199023255552"
    by (simp_all add: C_def)
  have YT: "Y * T = C" and TY: "T * Y = C" using T by (simp_all add: Y_def)
  have p53: "(2::rat) ^ 53 = 9007199254740992"
    and p106: "(2::rat) ^ 106 = 81129638414606681695789005144064"
    by simp_all
  have "\<bar>D - 100 * Y\<bar> \<le> (100 * Y) * (2 / 2 ^ 53 + 1 / 2 ^ 106)"
    using accuracy_value_error[OF assms(1,2)] by (simp add: D_def Y_def C_def T_def)
  then have a1: "\<bar>D - 100 * Y\<bar> \<le>
                   200 * Y / 9007199254740992 + 100 * Y / 81129638414606681695789005144064"
    unfolding p53 p106 by (simp add: algebra_simps)
  have k1: "\<bar>K - D * 10\<bar> \<le> 1 / 2"
    unfolding K_def k_def by (rule format_1f_error)
  have b: "\<bar>K - 1000 * Y\<bar> \<le>
             1 / 2 + 2000 * Y / 9007199254740992 + 1000 * Y / 81129638414606681695789005144064"
    using a1 k1 by linarith
  have "\<bar>K * T - 1000 * C\<bar> = \<bar>K - 1000 * Y\<bar> * T"
  proof -
    have "K * T - 1000 * C = (K - 1000 * Y) * T"
      by (simp add: algebra_simps YT TY)
    then show ?thesis using T by (simp add: abs_mult)
  qed
  also have "\<dots> \<le> (1 / 2 + 2000 * Y / 9007199254740992 +
                       1000 * Y / 81129638414606681695789005144064) * T"
    using b T by (intro mult_right_mono) simp_all
  also have "\<dots> = T / 2 + 2000 * C / 9007199254740992 +
                       1000 * C / 81129638414606681695789005144064"
    unfolding YT[symmetric] by (simp add: algebra_simps)
  also have "\<dots> < T / 2 + 1 / 2"
    using C by linarith
  finally have lt: "\<bar>K * T - 1000 * C\<bar> < T / 2 + 1 / 2" .
  have n: "K * T - 1000 * C = of_int n"
    by (simp add: n_def K_def T_def C_def)
  have "(of_int (2 * \<bar>n\<bar>) :: rat) < of_int (int t + 1)"
    using lt unfolding n by (simp add: T_def)
  then have "2 * \<bar>n\<bar> < int t + 1" by (simp only: of_int_less_iff)
  then have "2 * \<bar>n\<bar> \<le> int t" by simp
  then have "(of_int (2 * \<bar>n\<bar>) :: rat) \<le> of_int (int t)" by (simp only: of_int_le_iff)
  then have le: "\<bar>K * T - 1000 * C\<bar> \<le> T / 2"
    unfolding n by (simp add: T_def)
  have "\<bar>K / 10 - 100 * Y\<bar> * (10 * T) = \<bar>K * T - 1000 * C\<bar>"
  proof -
    have "(K / 10 - 100 * Y) * (10 * T) = K * T - 1000 * C"
      by (simp add: algebra_simps YT TY)
    then show ?thesis using T by (metis abs_mult abs_of_pos mult_pos_pos zero_less_numeral)
  qed
  with le have "\<bar>K / 10 - 100 * Y\<bar> * (10 * T) \<le> T / 2" by simp
  then have "\<bar>K / 10 - 100 * Y\<bar> \<le> 1 / 20"
    using T by (simp add: field_simps)
  then show ?thesis
    by (simp add: K_def k_def D_def Y_def C_def T_def)
qed

lemma round_half_even_unique:
  assumes "\<bar>of_int a - y\<bar> \<le> 1 / 2" and "frac y \<noteq> 1 / 2"
  shows "a = round_half_even y"
proof -
  have f1: "of_int \<lfloor>y\<rfloor> \<le> y" and f2: "y < of_int \<lfloor>y\<rfloor> + 1" by linarith+
  have r: "y - of_int \<lfloor>y\<rfloor> \<noteq> 1 / 2" using assms(2) by (simp add: frac_def)
  show ?thesis
  proof (cases "y - of_int \<lfloor>y\<rfloor> < 1 / 2")
    case True
    have "(of_int a :: rat) < of_int \<lfloor>y\<rfloor> + 1" and "(of_int \<lfloor>y\<rfloor> :: rat) - 1 < of_int a"
      using assms(1) True f1 by linarith+
    then have "(of_int a :: rat) < of_int (\<lfloor>y\<rfloor> + 1)"
      and "(of_int (\<lfloor>y\<rfloor> - 1) :: rat) < of_int a"
      by simp_all
    then have "a < \<lfloor>y\<rfloor> + 1" and "\<lfloor>y\<rfloor> - 1 < a"
      by (simp_all only: of_int_less_iff)
    then have "a = \<lfloor>y\<rfloor>" by linarith
    then show ?thesis using True by (simp add: round_half_even_def Let_def)
  next
    case False
    with r have gt: "1 / 2 < y - of_int \<lfloor>y\<rfloor>" by linarith
    have "(of_int \<lfloor>y\<rfloor> :: rat) < of_int a" and "(of_int a :: rat) < of_int \<lfloor>y\<rfloor> + 2"
      using assms(1) gt f2 by linarith+
    then have "(of_int \<lfloor>y\<rfloor> :: rat) < of_int a" and "(of_int a :: rat) < of_int (\<lfloor>y\<rfloor> + 2)"
      by simp_all
    then have "\<lfloor>y\<rfloor> < a" and "a < \<lfloor>y\<rfloor> + 2"
      by (simp_all only: of_int_less_iff)
    then have "a = \<lfloor>y\<rfloor> + 1" by linarith
    then show ?thesis using False gt by (simp add: round_half_even_def Let_def)
  qed
qed

lemma count_correct_le_total: "count_correct_answers db uid \<le> count_total_answers db uid"
proof -
  have "filter (\<lambda>s. st_user_id s = uid \<and> st_is_correct s) (user_stats db) =
        filter st_is_correct (filter (\<lambda>s. st_user_id s = uid) (user_stats db))"
    by (simp add: conj_commute)
  then show ?thesis
    unfolding count_correct_answers_def count_total_answers_def
    by (metis length_filter_le)
qed

lemma accuracy_value_zero_total: "format_1f (accuracy_value c 0) = 0"
  by (simp add: accuracy_value_def format_1f_def round_half_even_def)

text \<open>
  C5, as the code has it: with the store reachable and a known difficulty level,
  \<open>show_stats\<close> reports the three counts read from the store and the accuracy \<open>a\<close>, in
  tenths of a percent. With no answers the accuracy is \<open>0\<close> and nothing is divided.
  Otherwise \<open>a\<close> is the one-decimal rounding of the binary64 value of
  \<^verbatim>\<open>correct_answers / total_answers * 100\<close>, not of the exact percentage. That value is
  within a relative \<open>2^-52 + 2^-106\<close> of the exact percentage. For fewer than \<open>2^41\<close> correct
  answers (more than the key of the history table can count in any store of this bot) \<open>a\<close>
  is at most 0.05 away from the exact percentage, and it is the rounding of the exact
  percentage whenever that percentage does not lie midway between two tenths. When it does
  lie midway, the rounding rule does not decide which of the two tenths is printed: the
  error of the binary64 value does.
\<close>

theorem show_stats_accuracy:
  assumes "connect_ok e" and "execute_ok e"
      and "d = difficulty_or_default (select_difficulty db (from_user_id msg))"
      and "words_limit d = Some l"
      and "c = count_correct_answers db (from_user_id msg)"
      and "t = count_total_answers db (from_user_id msg)"
  shows "\<exists>a. show_stats e db msg =
               respond db
                 (StatsReport d (count_active_user_words db (from_user_id msg)) c t a)
                 MainKeyboard \<and>
             a = format_1f (accuracy_value c t) \<and>
             c \<le> t \<and>
             (t = 0 \<longrightarrow> a = 0) \<and>
             (0 < t \<longrightarrow>
                \<bar>of_int a / 10 - accuracy_value c t\<bar> \<le> 1 / 20 \<and>
                \<bar>accuracy_value c t - 100 * of_nat c / of_nat t\<bar> \<le>
                  (100 * of_nat c / of_nat t) * (2 / 2 ^ 53 + 1 / 2 ^ 106)) \<and>
             (0 < t \<and> c < 2 ^ 41 \<longrightarrow>
                \<bar>of_int a / 10 - 100 * of_nat c / of_nat t\<bar> \<le> (1 / 20 :: rat)) \<and>
             (0 < t \<and> c < 2 ^ 41 \<and> frac (1000 * of_nat c / of_nat t :: rat) \<noteq> 1 / 2 \<longrightarrow>
                a = round_half_even (1000 * of_nat c / of_nat t))"
proof -
  let ?a = "format_1f (accuracy_value c t)"
  have ct: "c \<le> t" unfolding assms(5,6) by (rule count_correct_le_total)
  have s: "show_stats e db msg =
             respond db
               (StatsReport d (count_active_user_words db (from_user_id msg)) c t ?a)
               MainKeyboard"
    using assms(1,2,4) unfolding assms(3,5,6) by (simp add: show_stats_def Let_def)
  have z: "t = 0 \<longrightarrow> ?a = 0" by (simp add: accuracy_value_zero_total)
  have r: "\<bar>of_int ?a / 10 - accuracy_value c t\<bar> \<le> 1 / 20"
    using format_1f_error[of "accuracy_value c t"] by linarith
  have f: "0 < t \<longrightarrow>
             \<bar>accuracy_value c t - 100 * of_nat c / of_nat t\<bar> \<le>
               (100 * of_nat c / of_nat t) * (2 / 2 ^ 53 + 1 / 2 ^ 106)"
    using accuracy_value_error[OF _ ct] by blast
  have x: "0 < t \<and> c < 2 ^ 41 \<longrightarrow>
             \<bar>of_int ?a / 10 - 100 * of_nat c / of_nat t\<bar> \<le> (1 / 20 :: rat)"
    using format_1f_exact[OF _ ct] by blast
  have u: "0 < t \<and> c < 2 ^ 41 \<and> frac (1000 * of_nat c / of_nat t :: rat) \<noteq> 1 / 2 \<longrightarrow>
             ?a = round_half_even (1000 * of_nat c / of_nat t)"
  proof
    assume h: "0 < t \<and> c < 2 ^ 41 \<and> frac (1000 * of_nat c / of_nat t :: rat) \<noteq> 1 / 2"
    then have "\<bar>of_int ?a / 10 - 100 * of_nat c / of_nat t\<bar> \<le> (1 / 20 :: rat)"
      using x by blast
    then have "\<bar>of_int ?a - 1000 * of_nat c / of_nat t\<bar> \<le> (1 / 2 :: rat)"
      by (simp add: abs_le_iff field_simps)
    then show "?a = round_half_even (1000 * of_nat c / of_nat t)"
      using h by (intro round_half_even_unique) simp_all
  qed
  from s ct z r f x u show ?thesis by blast
qed

lemma answered_db_stats:
  "user_stats answered_db =
     [\<lparr>st_stat_id = 1, st_user_id = 1, st_word_id = - 1, st_is_correct = True\<rparr>,
      \<lparr>st_stat_id = 2, st_user_id = 1, st_word_id = - 1, st_is_correct = False\<rparr>]"
  "users answered_db = users apple_db"
  "user_words answered_db = user_words apple_db"
  by (simp_all add: answered_db_def check_quiz_answer_def insert_user_stat_def user_exists_def
      respond_def up_env_def apple_db_def tr_apple_def ascii_def main_menu_text_def Let_def)

text \<open>
  C5 at the scenario of the specification: after one correct and one incorrect answer of
  user 1 the report shows one active word, 1 correct answer of 2, and 50.0 percent.
\<close>

theorem show_stats_accuracy_witness:
  "show_stats up_env answered_db \<lparr>from_user_id = 1, msg_text = Some (ascii ''/stats'')\<rparr> =
     respond answered_db (StatsReport (ascii ''medium'') 1 1 2 500) MainKeyboard"
proof -
  let ?m = "\<lparr>from_user_id = 1, msg_text = Some (ascii ''/stats'')\<rparr>"
  have c: "connect_ok up_env" and x: "execute_ok up_env" by (simp_all add: up_env_def)
  have d: "ascii ''medium'' = difficulty_or_default (select_difficulty answered_db (from_user_id ?m))"
    by (simp add: difficulty_or_default_def select_difficulty_def answered_db_stats apple_db_def
        ascii_def)
  have l: "words_limit (ascii ''medium'') = Some 20"
    by (simp add: words_limit_def ascii_def)
  have cc: "1 = count_correct_answers answered_db (from_user_id ?m)"
    and tt: "2 = count_total_answers answered_db (from_user_id ?m)"
    by (simp_all add: count_correct_answers_def count_total_answers_def answered_db_stats)
  have w: "count_active_user_words answered_db (from_user_id ?m) = 1"
    by (simp add: count_active_user_words_def active_user_words_def answered_db_stats
        apple_db_def)
  have a: "format_1f (accuracy_value 1 2) = 500" by code_simp
  from show_stats_accuracy[OF c x d l cc tt] show ?thesis
    unfolding w a by blast
qed

lemma tie_db_counts:
  "count_correct_answers tie_db 1 = 23"
  "count_total_answers tie_db 1 = 80"
  "count_active_user_words tie_db 1 = 0"
  "select_difficulty tie_db 1 = Some (Some (ascii ''easy''))"
  by (simp_all add: tie_db_def scenario_db_def count_correct_answers_def
      count_total_answers_def count_active_user_words_def active_user_words_def
      select_difficulty_def upt_rec)

text \<open>
  C5 as stated fails where the exact percentage lies midway between two tenths. After 23
  correct answers out of 80 the exact percentage is 28.75, which rounds to 28.8 (to the
  even digit as well as upwards); the binary64 product is the double just below 28.75, and
  the report shows 28.7.
\<close>

theorem show_stats_tie_printed_low:
  "show_stats up_env tie_db \<lparr>from_user_id = 1, msg_text = Some (ascii ''/stats'')\<rparr> =
     respond tie_db (StatsReport (ascii ''easy'') 0 23 80 287) MainKeyboard \<and>
   (of_nat 23 / of_nat 80 * 100 :: rat) = 2875 / 100 \<and>
   round_half_even (of_nat 23 / of_nat 80 * 100 * 10) = 288 \<and>
   \<lfloor>(of_nat 23 / of_nat 80 * 100 * 10 :: rat) + 1 / 2\<rfloor> = 288 \<and>
   accuracy_value 23 80 < 2875 / 100"
proof -
  have v: "accuracy_value 23 80 = round_binary64 (round_binary64 (23 / 80) * 100)"
    unfolding accuracy_value_def by simp
  have p: "format_1f (round_binary64 (round_binary64 (23 / 80) * 100)) = 287"
    by code_simp
  have b: "round_binary64 (round_binary64 (23 / 80) * 100) < 2875 / 100"
    by code_simp
  have e: "round_half_even (of_nat 23 / of_nat 80 * 100 * 10) = 288"
    by code_simp
  have l: "words_limit (ascii ''easy'') = Some 10"
    by (simp add: words_limit_def)
  have "show_stats up_env tie_db \<lparr>from_user_id = 1, msg_text = Some (ascii ''/stats'')\<rparr> =
     respond tie_db (StatsReport (ascii ''easy'') 0 23 80 287) MainKeyboard"
    by (simp add: show_stats_def up_env_def tie_db_counts difficulty_or_default_def l v p
        Let_def) (simp add: ascii_def)
  moreover have "\<lfloor>(of_nat 23 / of_nat 80 * 100 * 10 :: rat) + 1 / 2\<rfloor> = 288"
    by simp
  moreover have "(of_nat 23 / of_nat 80 * 100 :: rat) = 2875 / 100"
    by simp
  ultimately show ?thesis using e b unfolding v by blast
qed

end
